theory Spec2Isabelle
  imports Complex_Main "HOL-Library.List_Lexorder" "HOL-Library.Char_ord" "HOL-Library.Sublist"
begin

section \<open>Platform values: strings, numbers, dates, clock and random source\<close>

text \<open>
  Strings are compared the way JavaScript compares them: lexicographically by code unit,
  a proper prefix being smaller (the order of \<open>List_Lexorder\<close> over \<open>Char_ord\<close>).

  A \<open>Date\<close> is its time value: \<open>Some t\<close> with \<open>t\<close> the milliseconds since the epoch,
  \<open>None\<close> for an Invalid Date (time value NaN). Local fields are read under the zone of
  the process that runs the scheduler, taken as a fixed offset \<open>z\<close> in minutes east of
  UTC (no daylight-saving transition inside a computation); the range limit of time
  values (8.64e15 ms) is not modelled. Numbers that may be fractional are rationals.
\<close>

type_synonym date = "int option"
type_synonym zone = int

definition jsIncludes :: "string \<Rightarrow> string \<Rightarrow> bool" where
  \<comment> \<open>\<open>s.includes(sub)\<close> on strings: \<open>sub\<close> occurs in \<open>s\<close> as a contiguous run.\<close>
  "jsIncludes s sub = sublist sub s"

fun splitOn :: "char \<Rightarrow> string \<Rightarrow> string list" where
  \<comment> \<open>\<open>s.split(c)\<close> for a one-character separator; \<open>''''.split(c)\<close> is \<open>['''']\<close>.\<close>
  "splitOn c [] = [[]]"
| "splitOn c (x # xs) =
     (if x = c then [] # splitOn c xs
      else (case splitOn c xs of [] \<Rightarrow> [[x]] | p # ps \<Rightarrow> (x # p) # ps))"

definition digitVal :: "char \<Rightarrow> nat option" where
  "digitVal c = (let n = (of_char c :: nat) in if 48 \<le> n \<and> n \<le> 57 then Some (n - 48) else None)"

fun digitsVal :: "nat \<Rightarrow> string \<Rightarrow> nat option" where
  "digitsVal acc [] = Some acc"
| "digitsVal acc (c # cs) =
     (case digitVal c of None \<Rightarrow> None | Some d \<Rightarrow> digitsVal (10 * acc + d) cs)"

definition jsNumber :: "string \<Rightarrow> nat option" where
  \<comment> \<open>\<open>Number(s)\<close> on the texts a time of day is made of: a run of decimal digits is its
      value, the empty string is 0, and \<open>None\<close> stands for NaN. Signs, fractions,
      exponents, hexadecimal and surrounding white space are not interpreted here.\<close>
  "jsNumber s = digitsVal 0 s"

definition parseHour :: "string \<Rightarrow> nat option" where
  \<comment> \<open>The first component of \<open>s.split(':').map(Number)\<close>.\<close>
  "parseHour s = (case splitOn (CHR '':'') s of a # _ \<Rightarrow> jsNumber a | [] \<Rightarrow> None)"

definition parseHourMinute :: "string \<Rightarrow> (int \<times> int) option" where
  \<comment> \<open>\<open>const [hour, minute] = s.split(':').map(Number)\<close>; \<open>None\<close> when either of the two
      is NaN or missing, which makes the following \<open>setHours\<close> yield an Invalid Date.\<close>
  "parseHourMinute s =
     (case splitOn (CHR '':'') s of
        a # b # _ \<Rightarrow>
          (case (jsNumber a, jsNumber b) of
             (Some h, Some m) \<Rightarrow> Some (int h, int m)
           | _ \<Rightarrow> None)
      | _ \<Rightarrow> None)"

definition msPerMinute :: int where "msPerMinute = 60000"
definition msPerHour :: int where "msPerHour = 3600000"
definition msPerDay :: int where "msPerDay = 86400000"

definition localMs :: "zone \<Rightarrow> int \<Rightarrow> int" where
  "localMs z t = t + z * msPerMinute"

definition getHours :: "zone \<Rightarrow> int \<Rightarrow> nat" where
  "getHours z t = nat ((localMs z t mod msPerDay) div msPerHour)"

definition getMinutes :: "zone \<Rightarrow> int \<Rightarrow> nat" where
  "getMinutes z t = nat ((localMs z t mod msPerHour) div msPerMinute)"

definition getDay :: "zone \<Rightarrow> int \<Rightarrow> nat" where
  \<comment> \<open>0 is Sunday; 1 January 1970 was a Thursday.\<close>
  "getDay z t = nat ((localMs z t div msPerDay + 4) mod 7)"

definition digitChar :: "nat \<Rightarrow> char" where
  "digitChar d = ''0123456789'' ! d"

definition pad2 :: "nat \<Rightarrow> string" where
  "pad2 n = [digitChar (n div 10), digitChar (n mod 10)]"

definition fmtHM :: "nat \<Rightarrow> nat \<Rightarrow> string" where
  "fmtHM h m = pad2 h @ '':'' @ pad2 m"

definition toTimeStr :: "zone \<Rightarrow> date \<Rightarrow> string" where
  \<comment> \<open>\<open>time.toTimeString().slice(0, 5)\<close>: local \<open>HH:MM\<close>; an Invalid Date prints
      \<open>Invalid Date\<close>, of which the first five characters remain.\<close>
  "toTimeStr z d = (case d of None \<Rightarrow> ''Inval'' | Some t \<Rightarrow> fmtHM (getHours z t) (getMinutes z t))"

definition dayNames :: "string list" where
  "dayNames = [''Sun'', ''Mon'', ''Tue'', ''Wed'', ''Thu'', ''Fri'', ''Sat'']"

definition toDayName :: "zone \<Rightarrow> date \<Rightarrow> string" where
  \<comment> \<open>\<open>time.toLocaleDateString('en', { weekday: 'short' })\<close>.\<close>
  "toDayName z d = (case d of None \<Rightarrow> ''Invalid Date'' | Some t \<Rightarrow> dayNames ! getDay z t)"

definition setHours :: "zone \<Rightarrow> (int \<times> int) option \<Rightarrow> date \<Rightarrow> date" where
  \<comment> \<open>\<open>d.setHours(hour, minute, 0, 0)\<close>: same local calendar day, the given time of day.\<close>
  "setHours z hm d =
     (case (d, hm) of
        (Some t, Some (h, m)) \<Rightarrow>
          Some ((localMs z t div msPerDay) * msPerDay + h * msPerHour + m * msPerMinute
                - z * msPerMinute)
      | _ \<Rightarrow> None)"

definition addDays :: "int \<Rightarrow> date \<Rightarrow> date" where
  \<comment> \<open>\<open>d.setDate(d.getDate() + n)\<close>.\<close>
  "addDays n d = map_option (\<lambda>t. t + n * msPerDay) d"

definition addMinutes :: "int \<Rightarrow> date \<Rightarrow> date" where
  \<comment> \<open>\<open>d.setMinutes(d.getMinutes() + n)\<close> for an integer \<open>n\<close>.\<close>
  "addMinutes n d = map_option (\<lambda>t. t + n * msPerMinute) d"

definition truncRat :: "rat \<Rightarrow> int" where
  \<comment> \<open>ToIntegerOrInfinity: rounding towards zero.\<close>
  "truncRat x = (if 0 \<le> x then \<lfloor>x\<rfloor> else \<lceil>x\<rceil>)"

definition setMinutesPlus :: "zone \<Rightarrow> rat \<Rightarrow> date \<Rightarrow> date" where
  \<comment> \<open>\<open>d.setMinutes(d.getMinutes() + x)\<close> for a fractional \<open>x\<close>: the new minute value
      is the sum rounded towards zero.\<close>
  "setMinutesPlus z x d =
     map_option
       (\<lambda>t. t + (truncRat (of_nat (getMinutes z t) + x) - int (getMinutes z t)) * msPerMinute) d"

definition newDate :: "rat \<Rightarrow> date" where
  \<comment> \<open>\<open>new Date(number)\<close>.\<close>
  "newDate x = Some (truncRat x)"

definition dateLe :: "date \<Rightarrow> int \<Rightarrow> bool" where
  \<comment> \<open>\<open>time <= now\<close> with \<open>now\<close> a valid date: false when \<open>time\<close> is invalid (NaN).\<close>
  "dateLe d n = (case d of None \<Rightarrow> False | Some t \<Rightarrow> t \<le> n)"

record world =
  clockAt :: "nat \<Rightarrow> int"
  ticks :: nat
  randAt :: "nat \<Rightarrow> rat"
  draws :: nat

definition readClock :: "world \<Rightarrow> int \<times> world" where
  \<comment> \<open>\<open>new Date()\<close> / \<open>Date.now()\<close>: the next reading of the clock.\<close>
  "readClock w = (clockAt w (ticks w), w\<lparr>ticks := Suc (ticks w)\<rparr>)"

definition mathRandom :: "world \<Rightarrow> rat \<times> world" where
  \<comment> \<open>\<open>Math.random()\<close>: the next number of the random source.\<close>
  "mathRandom w = (randAt w (draws w), w\<lparr>draws := Suc (draws w)\<rparr>)"

datatype app_error =
    RangeError
  | AppError string string
  | ValidationError string
  | NetworkError string

section \<open>Domain types\<close>

record User =
  daily_call_limit :: int
  active_days :: string
  morning_start :: string
  evening_end :: string
  timezone :: string

datatype BlockRepeatType = DAILY | WEEKDAYS | WEEKENDS | CUSTOM | ONCE

record BlockedTime =
  block_name :: string
  start_time :: string
  end_time :: string
  repeat_type :: BlockRepeatType
  days_of_week :: "string option"
  is_active :: bool
  priority :: int

text \<open>
  Timestamps stored as ISO-8601 text are represented by the instant they denote.
  \<open>last_call_time\<close> is \<open>None\<close> when the field is absent and also when its text does not
  parse: the gap check is skipped in both cases (absent is falsy; a NaN difference is
  not smaller than any gap).
\<close>

record ScheduleHelper =
  next_call_due :: "int option"
  last_call_time :: "int option"
  calls_today :: int
  daily_reset_date :: string
  last_generated :: int
  updated_at :: int
  lock_version :: int

record CallGenerationOptions =
  optMinGapMinutes :: "rat option"
  optMaxGapMinutes :: "rat option"
  optMaxAttempts :: "nat option"

record CallValidationResult =
  isValid :: bool
  reason :: "string option"
  suggestedTime :: "date option"

record SchedulingResult =
  success :: bool
  nextCallTime :: "date option"
  error :: "string option"
  attempts :: nat
  constraints :: "string list"

record CallScheduler =
  user :: User
  minGapMinutes :: rat
  maxGapMinutes :: rat
  maxAttempts :: nat

definition MIN_CALL_GAP_MINUTES :: rat where "MIN_CALL_GAP_MINUTES = 45"
definition MAX_CALL_GAP_MINUTES :: rat where "MAX_CALL_GAP_MINUTES = 360"
definition RANDOMIZATION_WINDOW_MINUTES :: rat where "RANDOMIZATION_WINDOW_MINUTES = 30"

definition orDefault :: "'a::zero option \<Rightarrow> 'a \<Rightarrow> 'a" where
  \<comment> \<open>\<open>x || d\<close> on an optional number: the default replaces undefined and 0.\<close>
  "orDefault x d = (case x of None \<Rightarrow> d | Some v \<Rightarrow> if v = 0 then d else v)"

definition newCallScheduler :: "User \<Rightarrow> CallGenerationOptions \<Rightarrow> CallScheduler" where
  "newCallScheduler u opts =
     \<lparr> user = u,
       minGapMinutes = orDefault (optMinGapMinutes opts) MIN_CALL_GAP_MINUTES,
       maxGapMinutes = orDefault (optMaxGapMinutes opts) MAX_CALL_GAP_MINUTES,
       maxAttempts = orDefault (optMaxAttempts opts) 50 \<rparr>"

definition noOptions :: CallGenerationOptions where
  "noOptions = \<lparr> optMinGapMinutes = None, optMaxGapMinutes = None, optMaxAttempts = None \<rparr>"

section \<open>Validation of a candidate instant\<close>

definition isTimeInBlockedPeriod :: "zone \<Rightarrow> date \<Rightarrow> BlockedTime \<Rightarrow> bool" where
  "isTimeInBlockedPeriod z time block =
     (let timeStr = toTimeStr z time;
          dayName = toDayName z time;
          weekend = (dayName \<in> set [''Sat'', ''Sun''])
      in (case repeat_type block of
            DAILY \<Rightarrow> True
          | WEEKDAYS \<Rightarrow> \<not> weekend
          | WEEKENDS \<Rightarrow> weekend
          | CUSTOM \<Rightarrow> (case days_of_week block of
                         None \<Rightarrow> False
                       | Some ds \<Rightarrow> jsIncludes ds dayName)
          | ONCE \<Rightarrow> True)
         \<and> start_time block \<le> timeStr \<and> timeStr \<le> end_time block)"

definition adjustToTimeWindow :: "CallScheduler \<Rightarrow> zone \<Rightarrow> date \<Rightarrow> date" where
  "adjustToTimeWindow s z time =
     (let timeStr = toTimeStr z time in
      if timeStr < morning_start (user s) then
        setHours z (parseHourMinute (morning_start (user s))) time
      else if timeStr > evening_end (user s) then
        setHours z (parseHourMinute (morning_start (user s))) (addDays 1 time)
      else time)"

fun scanActiveDay :: "CallScheduler \<Rightarrow> zone \<Rightarrow> nat \<Rightarrow> date \<Rightarrow> date option" where
  \<comment> \<open>The loop of \<open>getNextActiveDay\<close> with the number of iterations left; \<open>None\<close> when
      the loop ends without returning. On an Invalid Date \<open>dayNames[NaN]\<close> is undefined,
      which no list of day names includes.\<close>
  "scanActiveDay s z 0 adjusted = None"
| "scanActiveDay s z (Suc n) adjusted =
     (let adjusted' = addDays 1 adjusted in
      (case adjusted' of
         None \<Rightarrow> scanActiveDay s z n adjusted'
       | Some t \<Rightarrow>
           if dayNames ! getDay z t \<in> set (splitOn (CHR '','') (active_days (user s))) then
             Some (setHours z (parseHourMinute (morning_start (user s))) adjusted')
           else scanActiveDay s z n adjusted'))"

definition getNextActiveDay :: "CallScheduler \<Rightarrow> zone \<Rightarrow> date \<Rightarrow> date" where
  "getNextActiveDay s z time =
     (case scanActiveDay s z 7 time of
        Some d \<Rightarrow> d
      | None \<Rightarrow> map_option (\<lambda>t. t + 24 * 60 * 60 * 1000) time)"

definition findNextAvailableTimeAfterBlock ::
    "CallScheduler \<Rightarrow> zone \<Rightarrow> date \<Rightarrow> BlockedTime \<Rightarrow> date" where
  "findNextAvailableTimeAfterBlock s z time block =
     adjustToTimeWindow s z
       (addMinutes 15 (setHours z (parseHourMinute (end_time block)) time))"

definition isSpace :: "char \<Rightarrow> bool" where
  \<comment> \<open>The ASCII members of the class \<open>\s\<close>.\<close>
  "isSpace c = (c \<in> set [CHR '' '', CHR 0x09, CHR 0x0A, CHR 0x0B, CHR 0x0C, CHR 0x0D])"

function replaceSpaces :: "string \<Rightarrow> string" where
  \<comment> \<open>\<open>s.replace(/\s+/g, '_')\<close>: every maximal run of white space becomes one underscore.\<close>
  "replaceSpaces [] = []"
| "replaceSpaces (c # cs) =
     (if isSpace c then CHR ''_'' # replaceSpaces (dropWhile isSpace cs)
      else c # replaceSpaces cs)"
  by pat_completeness auto
termination
  by (relation "measure length") (auto simp: length_dropWhile_le le_imp_less_Suc)

definition toLowerChar :: "char \<Rightarrow> char" where
  "toLowerChar c =
     (case map_of (zip ''ABCDEFGHIJKLMNOPQRSTUVWXYZ'' ''abcdefghijklmnopqrstuvwxyz'') c of
        Some l \<Rightarrow> l
      | None \<Rightarrow> c)"

definition toLowerCase :: "string \<Rightarrow> string" where
  \<comment> \<open>\<open>s.toLowerCase()\<close> on ASCII text.\<close>
  "toLowerCase s = map toLowerChar s"

definition blockedReason :: "BlockedTime \<Rightarrow> string" where
  "blockedReason block = ''blocked_'' @ replaceSpaces (toLowerCase (block_name block))"

definition invalidResult :: "string \<Rightarrow> date \<Rightarrow> CallValidationResult" where
  "invalidResult r d = \<lparr> isValid = False, reason = Some r, suggestedTime = Some d \<rparr>"

definition validResult :: CallValidationResult where
  "validResult = \<lparr> isValid = True, reason = None, suggestedTime = None \<rparr>"

definition gapViolation :: "CallScheduler \<Rightarrow> date \<Rightarrow> ScheduleHelper \<Rightarrow> int option" where
  \<comment> \<open>The minimum-gap check: the last call's instant when the candidate is too close
      to it. A NaN difference (Invalid Date) is not smaller than the gap.\<close>
  "gapViolation s time helper =
     (case last_call_time helper of
        None \<Rightarrow> None
      | Some lastCall \<Rightarrow>
          (case time of
             None \<Rightarrow> None
           | Some t \<Rightarrow>
               if (of_int (t - lastCall) :: rat) / (1000 * 60) < minGapMinutes s
               then Some lastCall else None))"

definition validateChecks ::
    "CallScheduler \<Rightarrow> zone \<Rightarrow> date \<Rightarrow> BlockedTime list \<Rightarrow> ScheduleHelper \<Rightarrow> world
     \<Rightarrow> CallValidationResult \<times> world" where
  \<comment> \<open>The \<open>try\<close> block of \<open>validateCallTime\<close>.\<close>
  "validateChecks s z time blockedTimes scheduleHelper w =
     (let timeStr = toTimeStr z time in
      if timeStr < morning_start (user s) \<or> timeStr > evening_end (user s) then
        (invalidResult ''outside_daily_window'' (adjustToTimeWindow s z time), w)
      else if \<not> jsIncludes (active_days (user s)) (toDayName z time) then
        (invalidResult ''inactive_day'' (getNextActiveDay s z time), w)
      else
        (case gapViolation s time scheduleHelper of
           Some lastCall \<Rightarrow>
             (invalidResult ''min_gap_violation''
                (newDate (of_int lastCall + minGapMinutes s * 60000)), w)
         | None \<Rightarrow>
             (case find (isTimeInBlockedPeriod z time) (filter is_active blockedTimes) of
                Some block \<Rightarrow>
                  (invalidResult (blockedReason block)
                     (findNextAvailableTimeAfterBlock s z time block), w)
              | None \<Rightarrow>
                  (let (now, w') = readClock w in
                   if dateLe time now then
                     (invalidResult ''past_time''
                        (newDate (of_int now + minGapMinutes s * 60000)), w')
                   else (validResult, w')))))"

definition toISOString :: "date \<Rightarrow> app_error + int" where
  \<comment> \<open>\<open>d.toISOString()\<close> raises a RangeError on an Invalid Date; the text of a valid
      date is represented by its instant.\<close>
  "toISOString d = (case d of None \<Rightarrow> Inl RangeError | Some t \<Rightarrow> Inr t)"

definition validateCatch :: "date \<Rightarrow> app_error \<Rightarrow> app_error + CallValidationResult" where
  \<comment> \<open>The \<open>catch\<close> block of \<open>validateCallTime\<close>: it logs \<open>time.toISOString()\<close>, then
      returns the \<open>validation_error\<close> result.\<close>
  "validateCatch time e =
     (case toISOString time of
        Inl e' \<Rightarrow> Inl e'
      | Inr _ \<Rightarrow> Inr \<lparr> isValid = False, reason = Some ''validation_error'',
                       suggestedTime = None \<rparr>)"

definition tryValidate ::
    "date \<Rightarrow> (app_error + CallValidationResult) \<Rightarrow> app_error + CallValidationResult" where
  "tryValidate time body = (case body of Inr r \<Rightarrow> Inr r | Inl e \<Rightarrow> validateCatch time e)"

definition validateCallTime ::
    "CallScheduler \<Rightarrow> zone \<Rightarrow> date \<Rightarrow> BlockedTime list \<Rightarrow> ScheduleHelper \<Rightarrow> world
     \<Rightarrow> (app_error + CallValidationResult) \<times> world" where
  \<comment> \<open>Every operation of the \<open>try\<close> block is defined on all values of its type (string
      comparison, \<open>includes\<close>, \<open>split\<close>, the setters of a Date, also an invalid one), so
      the block has no raising branch.\<close>
  "validateCallTime s z time blockedTimes scheduleHelper w =
     (let (r, w') = validateChecks s z time blockedTimes scheduleHelper w
      in (tryValidate time (Inr r), w'))"

section \<open>Candidate generation\<close>

definition successResult :: "date \<Rightarrow> nat \<Rightarrow> string list \<Rightarrow> SchedulingResult" where
  "successResult d n cs =
     \<lparr> success = True, nextCallTime = Some d, error = None, attempts = n, constraints = cs \<rparr>"

definition failureResult :: "string \<Rightarrow> nat \<Rightarrow> string list \<Rightarrow> SchedulingResult" where
  "failureResult msg n cs =
     \<lparr> success = False, nextCallTime = None, error = Some msg, attempts = n, constraints = cs \<rparr>"

definition pushReason :: "CallValidationResult \<Rightarrow> string list \<Rightarrow> string list" where
  \<comment> \<open>\<open>if (validation.reason && !constraints.includes(validation.reason))
      constraints.push(validation.reason)\<close>; the empty string is falsy.\<close>
  "pushReason v cs =
     (case reason v of
        None \<Rightarrow> cs
      | Some r \<Rightarrow> if r = [] \<or> r \<in> set cs then cs else cs @ [r])"

definition randomMinutes :: "rat \<Rightarrow> rat \<Rightarrow> rat \<Rightarrow> int" where
  \<comment> \<open>\<open>Math.floor(r * (hi - lo) + lo)\<close> for the number \<open>r\<close> drawn by \<open>Math.random()\<close>.\<close>
  "randomMinutes r lo hi = \<lfloor>r * (hi - lo) + lo\<rfloor>"

subsection \<open>Strategy 1: random offset\<close>

function findTimeBasicLoop ::
    "CallScheduler \<Rightarrow> zone \<Rightarrow> BlockedTime list \<Rightarrow> ScheduleHelper \<Rightarrow> int \<Rightarrow> nat \<Rightarrow> string list
     \<Rightarrow> world \<Rightarrow> (app_error + SchedulingResult) \<times> world" where
  "findTimeBasicLoop s z blockedTimes helper now n cs w =
     (if n < maxAttempts s then
        (let (r, w1) = mathRandom w;
             proposedTime =
               Some (now + randomMinutes r (minGapMinutes s) (maxGapMinutes s) * 60000)
         in (case validateCallTime s z proposedTime blockedTimes helper w1 of
               (Inl e, w2) \<Rightarrow> (Inl e, w2)
             | (Inr validation, w2) \<Rightarrow>
                 if isValid validation then
                   (Inr (successResult proposedTime (n + 1) cs), w2)
                 else
                   (let cs' = pushReason validation cs in
                    (case suggestedTime validation of
                       None \<Rightarrow> findTimeBasicLoop s z blockedTimes helper now (n + 1) cs' w2
                     | Some suggested \<Rightarrow>
                         (case validateCallTime s z suggested blockedTimes helper w2 of
                            (Inl e, w3) \<Rightarrow> (Inl e, w3)
                          | (Inr suggestedValidation, w3) \<Rightarrow>
                              if isValid suggestedValidation then
                                (Inr (successResult suggested (n + 1) cs'), w3)
                              else
                                findTimeBasicLoop s z blockedTimes helper now (n + 1) cs' w3)))))
      else
        (Inr (failureResult ''Max attempts reached with basic randomization'' n cs), w))"
  by pat_completeness auto
termination
  by (relation "measure (\<lambda>(s, z, blockedTimes, helper, now, n, cs, w). maxAttempts s - n)") auto

declare findTimeBasicLoop.simps [simp del]

definition findTimeWithBasicRandomization ::
    "CallScheduler \<Rightarrow> zone \<Rightarrow> BlockedTime list \<Rightarrow> ScheduleHelper \<Rightarrow> world
     \<Rightarrow> (app_error + SchedulingResult) \<times> world" where
  "findTimeWithBasicRandomization s z blockedTimes helper w =
     (let (now, w0) = readClock w in findTimeBasicLoop s z blockedTimes helper now 0 [] w0)"

subsection \<open>Strategy 2: preferred slots\<close>

record TimeSlot =
  hour :: nat
  minute :: int

definition getTimeSlotScore :: "TimeSlot \<Rightarrow> int" where
  "getTimeSlotScore slot =
     (if 10 \<le> hour slot \<and> hour slot \<le> 16 then 3 else 0)
     + (if 19 \<le> hour slot \<and> hour slot \<le> 21 then 4 else 0)
     + (if minute slot = 0 \<or> minute slot = 30 then 1 else 0)
     - (if hour slot < 9 \<or> hour slot > 22 then 2 else 0)"

definition optimalHours :: "nat list" where
  "optimalHours = [10, 11, 14, 16, 19, 20]"

fun collectSlots :: "nat option \<Rightarrow> nat option \<Rightarrow> nat list \<Rightarrow> world \<Rightarrow> TimeSlot list \<times> world" where
  \<comment> \<open>The loop over the optimal hours; a comparison with NaN is false.\<close>
  "collectSlots startHour endHour [] w = ([], w)"
| "collectSlots startHour endHour (h # hs) w =
     (case (startHour, endHour) of
        (Some sh, Some eh) \<Rightarrow>
          if sh \<le> h \<and> h \<le> eh then
            (let (r, w1) = mathRandom w;
                 (rest, w2) = collectSlots startHour endHour hs w1
             in (\<lparr> hour = h, minute = \<lfloor>r * 60\<rfloor> \<rparr> # rest, w2))
          else collectSlots startHour endHour hs w
      | _ \<Rightarrow> collectSlots startHour endHour hs w)"

definition getPreferredTimeSlots :: "CallScheduler \<Rightarrow> world \<Rightarrow> TimeSlot list \<times> world" where
  \<comment> \<open>The sort is stable and puts the higher score first.\<close>
  "getPreferredTimeSlots s w =
     (let (slots, w') =
            collectSlots (parseHour (morning_start (user s))) (parseHour (evening_end (user s)))
              optimalHours w
      in (sort_key (\<lambda>slot. - getTimeSlotScore slot) slots, w'))"

definition getNextOccurrenceOfTimeSlot :: "zone \<Rightarrow> TimeSlot \<Rightarrow> world \<Rightarrow> date \<times> world" where
  "getNextOccurrenceOfTimeSlot z slot w =
     (let (now, w1) = readClock w;
          proposed = setHours z (Some (int (hour slot), minute slot)) (Some now);
          proposed' = (if dateLe proposed now then addDays 1 proposed else proposed);
          (r, w2) = mathRandom w1;
          randomOffset = (r - 1 / 2) * RANDOMIZATION_WINDOW_MINUTES
      in (setMinutesPlus z randomOffset proposed', w2))"

fun findTimePatternLoop ::
    "CallScheduler \<Rightarrow> zone \<Rightarrow> BlockedTime list \<Rightarrow> ScheduleHelper \<Rightarrow> TimeSlot list \<Rightarrow> nat
     \<Rightarrow> string list \<Rightarrow> world \<Rightarrow> (app_error + SchedulingResult) \<times> world" where
  "findTimePatternLoop s z blockedTimes helper [] n cs w =
     (Inr (failureResult ''No valid time slots found in preferred patterns'' n cs), w)"
| "findTimePatternLoop s z blockedTimes helper (slot # slots) n cs w =
     (let (proposedTime, w1) = getNextOccurrenceOfTimeSlot z slot w in
      (case validateCallTime s z proposedTime blockedTimes helper w1 of
         (Inl e, w2) \<Rightarrow> (Inl e, w2)
       | (Inr validation, w2) \<Rightarrow>
           if isValid validation then (Inr (successResult proposedTime (n + 1) cs), w2)
           else findTimePatternLoop s z blockedTimes helper slots (n + 1)
                  (pushReason validation cs) w2))"

definition findTimeWithPatternOptimization ::
    "CallScheduler \<Rightarrow> zone \<Rightarrow> BlockedTime list \<Rightarrow> ScheduleHelper \<Rightarrow> world
     \<Rightarrow> (app_error + SchedulingResult) \<times> world" where
  "findTimeWithPatternOptimization s z blockedTimes helper w =
     (let (preferredSlots, w0) = getPreferredTimeSlots s w
      in findTimePatternLoop s z blockedTimes helper preferredSlots 0 [] w0)"

subsection \<open>Strategy 3: constraint relaxation\<close>

record Relaxation =
  relMinGap :: "rat option"
  ignoreLowPriorityBlocks :: bool
  description :: string

definition relaxationStrategies :: "CallScheduler \<Rightarrow> Relaxation list" where
  "relaxationStrategies s =
     [ \<lparr> relMinGap = Some (minGapMinutes s * (3 / 4)), ignoreLowPriorityBlocks = False,
         description = ''reduced_min_gap'' \<rparr>,
       \<lparr> relMinGap = Some (minGapMinutes s * (1 / 2)), ignoreLowPriorityBlocks = False,
         description = ''minimal_gap'' \<rparr>,
       \<lparr> relMinGap = None, ignoreLowPriorityBlocks = True,
         description = ''ignore_low_priority_blocks'' \<rparr> ]"

datatype relax_exit = Found "app_error + SchedulingResult" | Exhausted nat "string list"

definition filteredBlocks :: "Relaxation \<Rightarrow> BlockedTime list \<Rightarrow> BlockedTime list" where
  "filteredBlocks strategy blockedTimes =
     (if ignoreLowPriorityBlocks strategy then filter (\<lambda>block. priority block > 0) blockedTimes
      else blockedTimes)"

definition tempMinGap :: "CallScheduler \<Rightarrow> Relaxation \<Rightarrow> rat" where
  "tempMinGap s strategy = orDefault (relMinGap strategy) (minGapMinutes s)"

definition relaxedScheduler :: "CallScheduler \<Rightarrow> Relaxation \<Rightarrow> CallScheduler" where
  "relaxedScheduler s strategy =
     newCallScheduler (user s) (noOptions\<lparr> optMinGapMinutes := Some (tempMinGap s strategy) \<rparr>)"

function relaxationInner ::
    "CallScheduler \<Rightarrow> zone \<Rightarrow> BlockedTime list \<Rightarrow> ScheduleHelper \<Rightarrow> Relaxation \<Rightarrow> nat \<Rightarrow> nat
     \<Rightarrow> string list \<Rightarrow> world \<Rightarrow> relax_exit \<times> world" where
  "relaxationInner s z blockedTimes helper strategy n tot cs w =
     (if n < maxAttempts s div length (relaxationStrategies s) then
        (let (r, w1) = mathRandom w;
             (now, w2) = readClock w1;
             proposedTime =
               Some (now + randomMinutes r (tempMinGap s strategy) (maxGapMinutes s) * 60000)
         in (case validateCallTime (relaxedScheduler s strategy) z proposedTime
                    (filteredBlocks strategy blockedTimes) helper w2 of
               (Inl e, w3) \<Rightarrow> (Found (Inl e), w3)
             | (Inr validation, w3) \<Rightarrow>
                 if isValid validation then
                   (Found (Inr (successResult proposedTime (tot + 1)
                                  (cs @ [description strategy]))), w3)
                 else
                   relaxationInner s z blockedTimes helper strategy (n + 1) (tot + 1)
                     (pushReason validation cs) w3))
      else (Exhausted tot cs, w))"
  by pat_completeness auto
termination
  by (relation "measure (\<lambda>(s, z, blockedTimes, helper, strategy, n, tot, cs, w).
          maxAttempts s div length (relaxationStrategies s) - n)") auto

declare relaxationInner.simps [simp del]

fun relaxationOuter ::
    "CallScheduler \<Rightarrow> zone \<Rightarrow> BlockedTime list \<Rightarrow> ScheduleHelper \<Rightarrow> Relaxation list \<Rightarrow> nat
     \<Rightarrow> string list \<Rightarrow> world \<Rightarrow> (app_error + SchedulingResult) \<times> world" where
  "relaxationOuter s z blockedTimes helper [] tot cs w =
     (Inr (failureResult ''All constraint relaxation strategies failed'' tot cs), w)"
| "relaxationOuter s z blockedTimes helper (strategy # rest) tot cs w =
     (case relaxationInner s z blockedTimes helper strategy 0 tot cs w of
        (Found r, w') \<Rightarrow> (r, w')
      | (Exhausted tot' cs', w') \<Rightarrow> relaxationOuter s z blockedTimes helper rest tot' cs' w')"

definition findTimeWithConstraintRelaxation ::
    "CallScheduler \<Rightarrow> zone \<Rightarrow> BlockedTime list \<Rightarrow> ScheduleHelper \<Rightarrow> world
     \<Rightarrow> (app_error + SchedulingResult) \<times> world" where
  "findTimeWithConstraintRelaxation s z blockedTimes helper w =
     relaxationOuter s z blockedTimes helper (relaxationStrategies s) 0 [] w"

section \<open>The orchestrator\<close>

definition getNextDayFirstCall :: "CallScheduler \<Rightarrow> zone \<Rightarrow> world \<Rightarrow> date \<times> world" where
  "getNextDayFirstCall s z w =
     (let (now, w1) = readClock w;
          tomorrow = setHours z (parseHourMinute (morning_start (user s))) (addDays 1 (Some now));
          (r, w2) = mathRandom w1
      in (addMinutes \<lfloor>r * 60\<rfloor> tomorrow, w2))"

fun runStrategies ::
    "(world \<Rightarrow> (app_error + SchedulingResult) \<times> world) list \<Rightarrow> nat \<Rightarrow> string list \<Rightarrow> world
     \<Rightarrow> (app_error + SchedulingResult) \<times> world" where
  "runStrategies [] tot cs w =
     (Inr (failureResult ''Unable to find valid call time within constraints'' tot cs), w)"
| "runStrategies (strategy # rest) tot cs w =
     (case strategy w of
        (Inl e, w1) \<Rightarrow> (Inl e, w1)
      | (Inr result, w1) \<Rightarrow>
          (let tot' = tot + attempts result in
           (case (success result, nextCallTime result) of
              (True, Some d) \<Rightarrow>
                (case toISOString d of
                   Inl e \<Rightarrow> (Inl e, w1)
                 | Inr _ \<Rightarrow> (Inr (result\<lparr> attempts := tot' \<rparr>), w1))
            | _ \<Rightarrow> runStrategies rest tot' (cs @ constraints result) w1)))"

definition strategySearch ::
    "CallScheduler \<Rightarrow> zone \<Rightarrow> BlockedTime list \<Rightarrow> ScheduleHelper \<Rightarrow> world
     \<Rightarrow> (app_error + SchedulingResult) \<times> world" where
  "strategySearch s z blockedTimes helper w =
     runStrategies
       [ findTimeWithBasicRandomization s z blockedTimes helper,
         findTimeWithPatternOptimization s z blockedTimes helper,
         findTimeWithConstraintRelaxation s z blockedTimes helper ] 0 [] w"

definition dailyLimitResult ::
    "CallScheduler \<Rightarrow> zone \<Rightarrow> world \<Rightarrow> (app_error + SchedulingResult) \<times> world" where
  \<comment> \<open>The branch \<open>Validate daily limit\<close> of \<open>generateNextCallTime\<close>; its log entry
      prints the instant with \<open>toISOString\<close>, which raises on an Invalid Date.\<close>
  "dailyLimitResult s z w =
     (let (nextDayTime, w1) = getNextDayFirstCall s z w in
      (case toISOString nextDayTime of
         Inl e \<Rightarrow> (Inl e, w1)
       | Inr _ \<Rightarrow> (Inr (successResult nextDayTime 1 [''daily_limit_reached'']), w1)))"

definition generateTry ::
    "CallScheduler \<Rightarrow> zone \<Rightarrow> BlockedTime list \<Rightarrow> ScheduleHelper \<Rightarrow> world
     \<Rightarrow> (app_error + SchedulingResult) \<times> world" where
  \<comment> \<open>The \<open>try\<close> block of \<open>generateNextCallTime\<close>.\<close>
  "generateTry s z blockedTimes helper w =
     (if calls_today helper \<ge> daily_call_limit (user s) then dailyLimitResult s z w
      else strategySearch s z blockedTimes helper w)"

definition generateNextCallTime ::
    "CallScheduler \<Rightarrow> zone \<Rightarrow> BlockedTime list \<Rightarrow> ScheduleHelper \<Rightarrow> world
     \<Rightarrow> (app_error + SchedulingResult) \<times> world" where
  "generateNextCallTime s z blockedTimes helper w =
     (case generateTry s z blockedTimes helper w of
        (Inl e, w') \<Rightarrow> (Inl (AppError ''Failed to generate call time'' ''SCHEDULING_ERROR''), w')
      | (Inr result, w') \<Rightarrow> (Inr result, w'))"

section \<open>The stored schedule state and its conditional write\<close>

text \<open>
  The table \<open>schedule_helper\<close> holds at most one row per user (\<open>UNIQUE (user_id)\<close>), so it
  is a map from user ids to rows. The store answers every request; a failure of the
  transport is not modelled.
\<close>

type_synonym schedule_table = "string \<rightharpoonup> ScheduleHelper"

record ScheduleHelperUpdates =
  set_next_call_due :: "int option option"
  set_last_call_time :: "int option"
  set_calls_today :: "int option"
  set_daily_reset_date :: "string option"
  set_last_generated :: "int option"

definition noUpdates :: ScheduleHelperUpdates where
  "noUpdates = \<lparr> set_next_call_due = None, set_last_call_time = None, set_calls_today = None,
                 set_daily_reset_date = None, set_last_generated = None \<rparr>"

definition applyUpdates ::
    "ScheduleHelperUpdates \<Rightarrow> int \<Rightarrow> int option \<Rightarrow> ScheduleHelper \<Rightarrow> ScheduleHelper" where
  \<comment> \<open>The row after \<open>update({ ...updates, updated_at, lock_version })\<close>; a key whose value
      is undefined is not sent, so its column keeps its value.\<close>
  "applyUpdates updates now newVersion row =
     row\<lparr> next_call_due := (case set_next_call_due updates of None \<Rightarrow> next_call_due row | Some v \<Rightarrow> v),
          last_call_time := (case set_last_call_time updates of None \<Rightarrow> last_call_time row | Some v \<Rightarrow> Some v),
          calls_today := (case set_calls_today updates of None \<Rightarrow> calls_today row | Some v \<Rightarrow> v),
          daily_reset_date := (case set_daily_reset_date updates of None \<Rightarrow> daily_reset_date row | Some v \<Rightarrow> v),
          last_generated := (case set_last_generated updates of None \<Rightarrow> last_generated row | Some v \<Rightarrow> v),
          updated_at := now,
          lock_version := (case newVersion of None \<Rightarrow> lock_version row | Some v \<Rightarrow> v) \<rparr>"

definition nextLockVersion :: "int option \<Rightarrow> int option" where
  \<comment> \<open>\<open>expectedLockVersion ? expectedLockVersion + 1 : undefined\<close>; 0 is falsy.\<close>
  "nextLockVersion expected =
     (case expected of None \<Rightarrow> None | Some v \<Rightarrow> if v = 0 then None else Some (v + 1))"

definition rowMatches :: "int option \<Rightarrow> ScheduleHelper \<Rightarrow> bool" where
  \<comment> \<open>The filter \<open>.eq('lock_version', expectedLockVersion)\<close>, added only when a version
      is expected.\<close>
  "rowMatches expected row = (case expected of None \<Rightarrow> True | Some v \<Rightarrow> lock_version row = v)"

definition updateOnce ::
    "string \<Rightarrow> ScheduleHelperUpdates \<Rightarrow> int option \<Rightarrow> schedule_table \<Rightarrow> world
     \<Rightarrow> (app_error + ScheduleHelper) \<times> schedule_table \<times> world" where
  \<comment> \<open>The operation \<open>updateScheduleHelper\<close> hands to \<open>withRetry\<close>. \<open>.single()\<close> answers
      PGRST116 when no row was updated.\<close>
  "updateOnce userId updates expected db w =
     (let (now, w1) = readClock w in
      (case db userId of
         Some row \<Rightarrow>
           if rowMatches expected row then
             (let row' = applyUpdates updates now (nextLockVersion expected) row
              in (Inr row', db(userId \<mapsto> row'), w1))
           else if expected \<noteq> None then
             (Inl (ValidationError
                ''Schedule was modified by another process. Please refresh and try again.''),
              db, w1)
           else (Inl (ValidationError ''Invalid request parameters''), db, w1)
       | None \<Rightarrow>
           if expected \<noteq> None then
             (Inl (ValidationError
                ''Schedule was modified by another process. Please refresh and try again.''),
              db, w1)
           else (Inl (ValidationError ''Invalid request parameters''), db, w1)))"

definition errorMessage :: "app_error \<Rightarrow> string" where
  "errorMessage e =
     (case e of
        RangeError \<Rightarrow> ''Invalid time value''
      | AppError m c \<Rightarrow> m
      | ValidationError m \<Rightarrow> m
      | NetworkError m \<Rightarrow> m)"

definition MAX_RETRIES :: nat where "MAX_RETRIES = 3"

fun withRetryLeft ::
    "nat \<Rightarrow> (schedule_table \<Rightarrow> world \<Rightarrow> (app_error + 'a) \<times> schedule_table \<times> world)
     \<Rightarrow> schedule_table \<Rightarrow> world \<Rightarrow> (app_error + 'a) \<times> schedule_table \<times> world" where
  \<comment> \<open>The loop of \<open>withRetry\<close> with the number of attempts left after this one. A failed
      attempt that is not the last draws a random number for the delay; after the last
      one the error is wrapped in a NetworkError.\<close>
  "withRetryLeft 0 operation db w =
     (case operation db w of
        (Inr v, db', w') \<Rightarrow> (Inr v, db', w')
      | (Inl e, db', w') \<Rightarrow>
          (Inl (NetworkError (''Database operation failed after 3 attempts: '' @ errorMessage e)),
           db', w'))"
| "withRetryLeft (Suc k) operation db w =
     (case operation db w of
        (Inr v, db', w') \<Rightarrow> (Inr v, db', w')
      | (Inl e, db', w') \<Rightarrow>
          (let (r, w'') = mathRandom w' in withRetryLeft k operation db' w''))"

definition withRetry ::
    "(schedule_table \<Rightarrow> world \<Rightarrow> (app_error + 'a) \<times> schedule_table \<times> world)
     \<Rightarrow> schedule_table \<Rightarrow> world \<Rightarrow> (app_error + 'a) \<times> schedule_table \<times> world" where
  "withRetry operation db w = withRetryLeft (MAX_RETRIES - 1) operation db w"

definition updateScheduleHelper ::
    "string \<Rightarrow> ScheduleHelperUpdates \<Rightarrow> int option \<Rightarrow> schedule_table \<Rightarrow> world
     \<Rightarrow> (app_error + ScheduleHelper) \<times> schedule_table \<times> world" where
  "updateScheduleHelper userId updates expectedLockVersion db w =
     withRetry (updateOnce userId updates expectedLockVersion) db w"

definition createOnce ::
    "(int \<Rightarrow> string) \<Rightarrow> string \<Rightarrow> schedule_table \<Rightarrow> world
     \<Rightarrow> (app_error + ScheduleHelper) \<times> schedule_table \<times> world" where
  \<comment> \<open>The insert of \<open>createScheduleHelper\<close>. \<open>isoDate\<close> gives the calendar date, as
      text, that \<open>toISOString().split('T')[0]\<close> prints for an instant. A second row for
      the same user violates the unique constraint (23505).\<close>
  "createOnce isoDate userId db w =
     (let (d, w1) = readClock w;
          (g, w2) = readClock w1;
          row = \<lparr> next_call_due = None, last_call_time = None, calls_today = 0,
                  daily_reset_date = isoDate d, last_generated = g, updated_at = g,
                  lock_version = 1 \<rparr>
      in (case db userId of
            None \<Rightarrow> (Inr row, db(userId \<mapsto> row), w2)
          | Some _ \<Rightarrow> (Inl (ValidationError ''Duplicate entry detected''), db, w2)))"

definition createScheduleHelper ::
    "(int \<Rightarrow> string) \<Rightarrow> string \<Rightarrow> schedule_table \<Rightarrow> world
     \<Rightarrow> (app_error + ScheduleHelper) \<times> schedule_table \<times> world" where
  "createScheduleHelper isoDate userId db w = withRetry (createOnce isoDate userId) db w"

subsection \<open>The operations of the scheduling hook that write the state\<close>


definition generateNextCall ::
    "string \<Rightarrow> CallScheduler \<Rightarrow> zone \<Rightarrow> BlockedTime list \<Rightarrow> ScheduleHelper \<Rightarrow> schedule_table
     \<Rightarrow> world \<Rightarrow> (app_error + SchedulingResult \<times> ScheduleHelper) \<times> schedule_table \<times> world" where
  \<comment> \<open>\<open>generateNextCall\<close> of the hook, on the blocked times and the schedule state it
      holds; it returns the result and the state it holds afterwards.\<close>
  "generateNextCall userId s z blockedTimes scheduleHelper db w =
     (case generateNextCallTime s z blockedTimes scheduleHelper w of
        (Inl e, w1) \<Rightarrow> (Inl e, db, w1)
      | (Inr result, w1) \<Rightarrow>
          (case (success result, nextCallTime result) of
             (True, Some d) \<Rightarrow>
               (case toISOString d of
                  Inl e \<Rightarrow> (Inl e, db, w1)
                | Inr due \<Rightarrow>
                    (let (now, w2) = readClock w1 in
                     (case updateScheduleHelper userId
                             (noUpdates\<lparr> set_next_call_due := Some (Some due),
                                         set_last_generated := Some now \<rparr>)
                             (Some (lock_version scheduleHelper)) db w2 of
                        (Inl e, db', w3) \<Rightarrow> (Inl e, db', w3)
                      | (Inr updated, db', w3) \<Rightarrow> (Inr (result, updated), db', w3))))
           | _ \<Rightarrow> (Inr (result, scheduleHelper), db, w1)))"

section \<open>Notions the properties are stated with\<close>

definition inDailyWindow :: "User \<Rightarrow> zone \<Rightarrow> date \<Rightarrow> bool" where
  \<comment> \<open>The local \<open>HH:MM\<close> of the instant is in the closed range of the daily window.\<close>
  "inDailyWindow u z t = (morning_start u \<le> toTimeStr z t \<and> toTimeStr z t \<le> evening_end u)"

definition onActiveDay :: "User \<Rightarrow> zone \<Rightarrow> date \<Rightarrow> bool" where
  \<comment> \<open>The local weekday name of the instant occurs in the text of active days.\<close>
  "onActiveDay u z t = jsIncludes (active_days u) (toDayName z t)"

definition minuteOfDay :: "zone \<Rightarrow> int \<Rightarrow> nat" where
  "minuteOfDay z t = 60 * getHours z t + getMinutes z t"

fun joinComma :: "string list \<Rightarrow> string" where
  "joinComma [] = []"
| "joinComma [p] = p"
| "joinComma (p # q # ps) = p @ CHR '','' # joinComma (q # ps)"

definition wellFormedDays :: "string \<Rightarrow> bool" where
  \<comment> \<open>A comma-separated list of weekday names, the shape the table constraint on
      \<open>days_of_week\<close> asks for and the sign-up form writes into \<open>active_days\<close>.\<close>
  "wellFormedDays ds = list_all (\<lambda>p. p \<in> set dayNames) (splitOn (CHR '','') ds)"

definition daySet :: "string \<Rightarrow> string set" where
  "daySet ds = set (splitOn (CHR '','') ds)"



definition byDescendingPriority :: "BlockedTime list \<Rightarrow> bool" where
  \<comment> \<open>The order in which \<open>getBlockedTimes\<close> asks the store for the rows:
      \<open>order('priority', { ascending: false })\<close>.\<close>
  "byDescendingPriority blocks = sorted_wrt (\<lambda>a b. priority b \<le> priority a) blocks"

definition tooCloseToLastCall :: "CallScheduler \<Rightarrow> date \<Rightarrow> ScheduleHelper \<Rightarrow> bool" where
  \<comment> \<open>The candidate is less than the minimum gap after the last call.\<close>
  "tooCloseToLastCall s time h =
     (case (last_call_time h, time) of
        (Some lastCall, Some t) \<Rightarrow> (of_int (t - lastCall) :: rat) / 60000 < minGapMinutes s
      | _ \<Rightarrow> False)"

definition firstBlocking :: "zone \<Rightarrow> date \<Rightarrow> BlockedTime list \<Rightarrow> BlockedTime option" where
  \<comment> \<open>The first active interval, in the order of the list, that blocks the candidate.\<close>
  "firstBlocking z time bs = find (isTimeInBlockedPeriod z time) (filter is_active bs)"



definition relaxationBudget :: "CallScheduler \<Rightarrow> nat" where
  \<comment> \<open>The attempts each relaxation may make: \<open>maxAttempts\<close> divided by the number of
      relaxations, rounded down.\<close>
  "relaxationBudget s = maxAttempts s div 3"

definition acceptedUnder ::
    "CallScheduler \<Rightarrow> zone \<Rightarrow> BlockedTime list \<Rightarrow> ScheduleHelper \<Rightarrow> Relaxation
     \<Rightarrow> SchedulingResult \<Rightarrow> bool" where
  \<comment> \<open>The result names the relaxation as the last of its constraints, and its instant
      was reported valid under that relaxation.\<close>
  "acceptedUnder s z bs h st res =
     (constraints res \<noteq> [] \<and> last (constraints res) = description st
      \<and> (\<exists>t w0 w1 v. nextCallTime res = Some t
            \<and> validateCallTime (relaxedScheduler s st) z t (filteredBlocks st bs) h w0 = (Inr v, w1)
            \<and> isValid v))"

definition relaxationPlan ::
    "CallScheduler \<Rightarrow> BlockedTime list \<Rightarrow> (string \<times> rat \<times> BlockedTime list) list" where
  \<comment> \<open>For each relaxation in the order they are tried: its name, the minimum gap and
      the blocked intervals its validations use.\<close>
  "relaxationPlan s bs =
     map (\<lambda>st. (description st, minGapMinutes (relaxedScheduler s st), filteredBlocks st bs))
       (relaxationStrategies s)"

definition conflictMessage :: string where
  "conflictMessage = ''Schedule was modified by another process. Please refresh and try again.''"


subsection \<open>Concrete values\<close>

definition tokyoUser :: User where
  "tokyoUser = \<lparr> daily_call_limit = 3, active_days = ''Mon,Tue,Wed,Thu,Fri,Sat,Sun'',
       morning_start = ''09:00'', evening_end = ''21:00'', timezone = ''Asia/Tokyo'' \<rparr>"

definition tokyo :: zone where "tokyo = 540"

definition idleHelper :: ScheduleHelper where
  "idleHelper = \<lparr> next_call_due = None, last_call_time = None, calls_today = 0,
       daily_reset_date = ''2023-10-25'', last_generated = 1698191940000,
       updated_at = 1698191940000, lock_version = 1 \<rparr>"

definition fixedWorld :: "int \<Rightarrow> rat \<Rightarrow> world" where
  \<comment> \<open>A stopped clock and a random source that always gives the same number.\<close>
  "fixedWorld now r = \<lparr> clockAt = (\<lambda>_. now), ticks = 0, randAt = (\<lambda>_. r), draws = 0 \<rparr>"

definition lunch :: BlockedTime where
  "lunch = \<lparr> block_name = ''Lunch'', start_time = ''12:00'', end_time = ''13:00'',
      repeat_type = DAILY, days_of_week = None, is_active = True, priority = 1 \<rparr>"

definition gym :: BlockedTime where
  "gym = \<lparr> block_name = ''Gym Class'', start_time = ''12:00'', end_time = ''13:00'',
      repeat_type = CUSTOM, days_of_week = Some ''Mon,Wed,Fri'', is_active = True,
      priority = 5 \<rparr>"

definition fullHelper :: ScheduleHelper where
  "fullHelper = idleHelper\<lparr> calls_today := 3 \<rparr>"


definition recentHelper :: ScheduleHelper where
  \<comment> \<open>The last call was at 10:59, Tokyo time.\<close>
  "recentHelper = idleHelper\<lparr> last_call_time := Some 1698199140000 \<rparr>"

definition versionSeven :: ScheduleHelper where
  "versionSeven = idleHelper\<lparr> lock_version := 7 \<rparr>"


definition noDaysUser :: User where
  "noDaysUser = tokyoUser\<lparr> active_days := [] \<rparr>"

section \<open>Facts about the platform functions\<close>

lemmas time_defs = toTimeStr_def fmtHM_def pad2_def digitChar_def getHours_def getMinutes_def
  getDay_def localMs_def msPerDay_def msPerHour_def msPerMinute_def toDayName_def dayNames_def

lemmas parse_defs = parseHourMinute_def parseHour_def jsNumber_def digitVal_def

lemmas validate_defs = validateCallTime_def validateChecks_def tryValidate_def Let_def
  gapViolation_def readClock_def dateLe_def validResult_def invalidResult_def
  isTimeInBlockedPeriod_def jsIncludes_def sublist_code

lemmas scheduler_defs = newCallScheduler_def noOptions_def orDefault_def
  MIN_CALL_GAP_MINUTES_def MAX_CALL_GAP_MINUTES_def

lemma of_char_digitChar: "d < 10 \<Longrightarrow> (of_char (digitChar d) :: nat) = 48 + d"
proof -
  assume "d < 10"
  then have "d \<in> {0, 1, 2, 3, 4, 5, 6, 7, 8, 9}" by auto
  then show ?thesis by (auto simp: digitChar_def)
qed

lemma digitChar_less: "a < 10 \<Longrightarrow> b < 10 \<Longrightarrow> digitChar a < digitChar b \<longleftrightarrow> a < b"
  by (simp add: less_char_def of_char_digitChar)

lemma digitChar_eq: "a < 10 \<Longrightarrow> b < 10 \<Longrightarrow> digitChar a = digitChar b \<longleftrightarrow> a = b"
  by (metis of_char_digitChar add_left_cancel)

lemma two_digit_less:
  "ra < 10 \<Longrightarrow> rb < 10 \<Longrightarrow>
   (10 * qa + ra < 10 * qb + (rb::nat)) \<longleftrightarrow> qa < qb \<or> (qa = qb \<and> ra < rb)"
  by arith

lemma pad2_less:
  assumes "a < 100" "b < 100"
  shows "pad2 a < pad2 b \<longleftrightarrow> a < b"
proof -
  have d: "a div 10 < 10" "a mod 10 < 10" "b div 10 < 10" "b mod 10 < 10" using assms by auto
  have "a < b \<longleftrightarrow> 10 * (a div 10) + a mod 10 < 10 * (b div 10) + b mod 10" by simp
  also have "\<dots> \<longleftrightarrow> a div 10 < b div 10 \<or> (a div 10 = b div 10 \<and> a mod 10 < b mod 10)"
    using d by (intro two_digit_less)
  finally have "a < b \<longleftrightarrow> a div 10 < b div 10 \<or> (a div 10 = b div 10 \<and> a mod 10 < b mod 10)" .
  moreover have "pad2 a < pad2 b \<longleftrightarrow>
     digitChar (a div 10) < digitChar (b div 10) \<or>
       (digitChar (a div 10) = digitChar (b div 10) \<and> digitChar (a mod 10) < digitChar (b mod 10))"
    by (simp add: pad2_def)
  ultimately show ?thesis using d by (simp add: digitChar_less digitChar_eq)
qed

lemma pad2_eq:
  assumes "a < 100" "b < 100"
  shows "pad2 a = pad2 b \<longleftrightarrow> a = b"
proof -
  have d: "a div 10 < 10" "a mod 10 < 10" "b div 10 < 10" "b mod 10 < 10" using assms by auto
  have "a = b \<longleftrightarrow> a div 10 = b div 10 \<and> a mod 10 = b mod 10"
    by (metis div_mult_mod_eq)
  moreover have "pad2 a = pad2 b \<longleftrightarrow>
     digitChar (a div 10) = digitChar (b div 10) \<and> digitChar (a mod 10) = digitChar (b mod 10)"
    by (simp add: pad2_def)
  ultimately show ?thesis using d by (simp add: digitChar_eq)
qed

lemma fmtHM_le:
  assumes "h < 100" "m < 100" "h' < 100" "m' < 100"
  shows "fmtHM h m \<le> fmtHM h' m' \<longleftrightarrow> h < h' \<or> (h = h' \<and> m \<le> m')"
proof -
  have "fmtHM h m \<le> fmtHM h' m' \<longleftrightarrow>
      pad2 h < pad2 h' \<or> (pad2 h = pad2 h' \<and> (pad2 m < pad2 m' \<or> pad2 m = pad2 m'))"
    unfolding fmtHM_def pad2_def by simp blast
  with assms show ?thesis by (auto simp: pad2_less pad2_eq)
qed

lemma getHours_lt: "getHours z t < 24"
proof -
  have "(localMs z t mod 86400000) < 86400000" by simp
  then have "(localMs z t mod 86400000) div 3600000 < 24" by linarith
  then show ?thesis by (simp add: getHours_def msPerDay_def msPerHour_def)
qed

lemma getMinutes_lt: "getMinutes z t < 60"
proof -
  have "(localMs z t mod 3600000) < 3600000" by simp
  then have "(localMs z t mod 3600000) div 60000 < 60" by linarith
  then show ?thesis by (simp add: getMinutes_def msPerMinute_def msPerHour_def)
qed

lemma getDay_lt: "getDay z t < 7"
  by (simp add: getDay_def)

text \<open>
  For a window written as two \<open>HH:MM\<close> texts, the comparison of texts is the comparison
  of the minutes since local midnight.
\<close>

lemma inDailyWindow_minutes:
  assumes "morning_start u = fmtHM h1 m1" and "evening_end u = fmtHM h2 m2"
    and "h1 < 24" "m1 < 60" "h2 < 24" "m2 < 60"
  shows "inDailyWindow u z (Some t) \<longleftrightarrow>
     60 * h1 + m1 \<le> minuteOfDay z t \<and> minuteOfDay z t \<le> 60 * h2 + m2"
proof -
  have h: "getHours z t < 100" "getMinutes z t < 100" "getMinutes z t < 60"
    using getHours_lt[of z t] getMinutes_lt[of z t] by auto
  have a: "fmtHM h1 m1 \<le> fmtHM (getHours z t) (getMinutes z t) \<longleftrightarrow>
        h1 < getHours z t \<or> (h1 = getHours z t \<and> m1 \<le> getMinutes z t)"
    using assms h by (intro fmtHM_le) auto
  have b: "fmtHM (getHours z t) (getMinutes z t) \<le> fmtHM h2 m2 \<longleftrightarrow>
        getHours z t < h2 \<or> (getHours z t = h2 \<and> getMinutes z t \<le> m2)"
    using assms h by (intro fmtHM_le) auto
  show ?thesis
    unfolding inDailyWindow_def assms(1,2) toTimeStr_def minuteOfDay_def option.case a b
    using assms(4,6) h(3) by arith
qed

subsection \<open>A weekday name occurs in a list of weekday names only as one of its members\<close>

lemma splitOn_nonempty: "splitOn c s \<noteq> []"
  by (induction s) (auto split: list.splits)

lemma joinComma_splitOn: "joinComma (splitOn (CHR '','') s) = s"
proof (induction s)
  case Nil
  then show ?case by simp
next
  case (Cons x xs)
  obtain p ps where sp: "splitOn (CHR '','') xs = p # ps"
    using splitOn_nonempty[of "CHR '',''" xs] by (cases "splitOn (CHR '','') xs") auto
  with Cons show ?case by (cases ps) auto
qed

lemma dayName_facts: "D \<in> set dayNames \<Longrightarrow> length D = 3 \<and> CHR '','' \<notin> set D"
  by (auto simp: dayNames_def)

lemma sublist_same_length: "sublist xs ys \<Longrightarrow> length xs = length ys \<Longrightarrow> xs = ys"
  by (auto simp: sublist_def)

lemma sublist_joinComma:
  assumes "D \<in> set dayNames" and "\<forall>p\<in>set ps. p \<in> set dayNames"
  shows "sublist D (joinComma ps) \<longleftrightarrow> D \<in> set ps"
  using assms(2)
proof (induction ps rule: joinComma.induct)
  case 1
  from dayName_facts[OF assms(1)] show ?case by auto
next
  case (2 p)
  with dayName_facts[OF assms(1)] dayName_facts[of p] show ?case
    by (auto dest: sublist_same_length)
next
  case (3 p q ps)
  let ?rest = "joinComma (q # ps)"
  have D: "length D = 3" "CHR '','' \<notin> set D" using dayName_facts[OF assms(1)] by auto
  have p: "length p = 3" using dayName_facts[of p] 3 by auto
  have IH: "sublist D ?rest \<longleftrightarrow> D \<in> set (q # ps)" using 3 by simp
  have a: "sublist D p \<longleftrightarrow> D = p"
    using D p by (auto dest: sublist_same_length)
  have b: "sublist D (CHR '','' # ?rest) \<longleftrightarrow> sublist D ?rest"
    using D by (cases D) (auto simp: sublist_Cons_right)
  have c: "\<not> (\<exists>xs1 xs2. D = xs1 @ xs2 \<and> xs2 \<noteq> [] \<and> prefix xs2 (CHR '','' # ?rest))"
  proof
    assume "\<exists>xs1 xs2. D = xs1 @ xs2 \<and> xs2 \<noteq> [] \<and> prefix xs2 (CHR '','' # ?rest)"
    then obtain xs1 xs2 where "D = xs1 @ xs2" "xs2 \<noteq> []" "prefix xs2 (CHR '','' # ?rest)"
      by blast
    then have "CHR '','' \<in> set D" by (cases xs2) (auto simp: prefix_Cons)
    with D show False by simp
  qed
  have "sublist D (p @ CHR '','' # ?rest) \<longleftrightarrow> sublist D p \<or> sublist D (CHR '','' # ?rest)"
  proof
    assume "sublist D (p @ CHR '','' # ?rest)"
    then consider "sublist D p" | "sublist D (CHR '','' # ?rest)"
      | xs1 xs2 where "D = xs1 @ xs2" "suffix xs1 p" "prefix xs2 (CHR '','' # ?rest)"
      by (auto simp: sublist_append)
    then show "sublist D p \<or> sublist D (CHR '','' # ?rest)"
    proof cases
      case 3
      with c have "xs2 = []" by blast
      with 3 have "suffix D p" by simp
      then show ?thesis by (auto intro: suffix_imp_sublist)
    qed auto
  next
    assume "sublist D p \<or> sublist D (CHR '','' # ?rest)"
    then show "sublist D (p @ CHR '','' # ?rest)" by (auto simp: sublist_append)
  qed
  with a b IH show ?case by auto
qed

lemma includes_dayName:
  assumes "wellFormedDays ds" and "d < 7"
  shows "jsIncludes ds (dayNames ! d) \<longleftrightarrow> dayNames ! d \<in> daySet ds"
proof -
  have D: "dayNames ! d \<in> set dayNames"
    using assms(2) by (intro nth_mem) (simp add: dayNames_def)
  have "\<forall>p\<in>set (splitOn (CHR '','') ds). p \<in> set dayNames"
    using assms(1) by (simp add: wellFormedDays_def list_all_iff)
  from sublist_joinComma[OF D this] show ?thesis
    by (simp add: jsIncludes_def joinComma_splitOn daySet_def)
qed

section \<open>Properties of the validation\<close>

lemma validateCallTime_returns:
  "validateCallTime s z time bs h w =
     (Inr (fst (validateChecks s z time bs h w)), snd (validateChecks s z time bs h w))"
  by (simp add: validateCallTime_def tryValidate_def split: prod.splits)





subsection \<open>Accepted instants lie in the daily window\<close>





lemma user_relaxedScheduler [simp]: "user (relaxedScheduler s st) = user s"
  by (simp add: relaxedScheduler_def newCallScheduler_def)






lemma onActiveDay_member:
  assumes "wellFormedDays (active_days u)"
  shows "onActiveDay u z (Some t) \<longleftrightarrow> dayNames ! getDay z t \<in> daySet (active_days u)"
  using includes_dayName[OF assms getDay_lt[of z t]] by (simp add: onActiveDay_def toDayName_def)





subsection \<open>Order of the checks, and the suggested time\<close>

lemma gapViolation_tooClose: "gapViolation s time h \<noteq> None \<longleftrightarrow> tooCloseToLastCall s time h"
  by (simp add: gapViolation_def tooCloseToLastCall_def split: option.splits)



lemmas store_free_eval = validate_defs scheduler_defs time_defs parse_defs tokyoUser_def
  tokyo_def idleHelper_def fixedWorld_def lunch_def gym_def mathRandom_def randomMinutes_def
  blockedReason_def toLowerCase_def toLowerChar_def isSpace_def
  findNextAvailableTimeAfterBlock_def adjustToTimeWindow_def setHours_def addMinutes_def
  addDays_def inDailyWindow_def onActiveDay_def






subsection \<open>Which blocked interval is reported\<close>

lemma find_highest_priority:
  assumes "sorted_wrt (\<lambda>a b. priority b \<le> priority a) xs" and "find P xs = Some b"
    and "x \<in> set xs" and "P x"
  shows "priority x \<le> priority b"
  using assms by (induction xs) (auto split: if_splits)

text \<open>
  Claim C6 (amended). When a candidate that passes the window, active-day and
  minimum-gap checks is blocked by active intervals, the validation result reports the
  first matching active interval in the order of the list it was given: the reason and
  the suggested escape time come from that interval. When the list is in descending
  order of priority, the order in which \<open>getBlockedTimes\<close> loads it, that interval has
  the largest priority among the matching ones.
\<close>

theorem first_matching_interval_reported:
  assumes "validateCallTime s z time bs h w = (Inr r, w')"
    and "inDailyWindow (user s) z time" and "onActiveDay (user s) z time"
    and "\<not> tooCloseToLastCall s time h"
    and "x \<in> set bs" and "is_active x" and "isTimeInBlockedPeriod z time x"
  shows "\<exists>b. firstBlocking z time bs = Some b
     \<and> r = invalidResult (blockedReason b) (findNextAvailableTimeAfterBlock s z time b)
     \<and> (byDescendingPriority bs \<longrightarrow> priority x \<le> priority b)"
proof -
  have x: "x \<in> set (filter is_active bs)" using assms(5,6) by simp
  then obtain b where b: "find (isTimeInBlockedPeriod z time) (filter is_active bs) = Some b"
    using assms(7) by (cases "find (isTimeInBlockedPeriod z time) (filter is_active bs)")
      (auto simp: find_None_iff)
  have r: "r = fst (validateChecks s z time bs h w)"
    using assms(1) by (simp add: validateCallTime_returns)
  have g: "gapViolation s time h = None"
    using assms(4) gapViolation_tooClose[of s time h] by simp
  have "r = invalidResult (blockedReason b) (findNextAvailableTimeAfterBlock s z time b)"
    unfolding r using assms(2,3) b g
    by (auto simp: validateChecks_def Let_def inDailyWindow_def onActiveDay_def)
  moreover have "priority x \<le> priority b" if "byDescendingPriority bs"
  proof -
    from that have "sorted_wrt (\<lambda>a b. priority b \<le> priority a) (filter is_active bs)"
      unfolding byDescendingPriority_def by (rule sorted_wrt_filter)
    from find_highest_priority[OF this b x assms(7)] show ?thesis .
  qed
  ultimately show ?thesis using b by (simp add: firstBlocking_def)
qed

theorem first_matching_interval_reported_witness:
  "byDescendingPriority [gym, lunch]
   \<and> firstBlocking tokyo (Some 1698204600000) [gym, lunch] = Some gym
   \<and> fst (validateCallTime (newCallScheduler tokyoUser noOptions) tokyo (Some 1698204600000)
            [gym, lunch] idleHelper (fixedWorld 1698201900000 0))
       = Inr (invalidResult ''blocked_gym_class'' (Some 1698207300000))
   \<and> priority lunch \<le> priority gym"
proof -
  let ?s = "newCallScheduler tokyoUser noOptions"
  let ?t = "Some (1698204600000::int)"
  let ?w = "fixedWorld 1698201900000 0"
  obtain r w' where v: "validateCallTime ?s tokyo ?t [gym, lunch] idleHelper ?w = (Inr r, w')"
    using validateCallTime_returns[of ?s tokyo ?t "[gym, lunch]" idleHelper ?w] by blast
  have a: "inDailyWindow (user ?s) tokyo ?t" "onActiveDay (user ?s) tokyo ?t"
    "\<not> tooCloseToLastCall ?s ?t idleHelper"
    "lunch \<in> set [gym, lunch]" "is_active lunch" "isTimeInBlockedPeriod tokyo ?t lunch"
    by (simp_all add: store_free_eval tooCloseToLastCall_def)
  have f: "firstBlocking tokyo ?t [gym, lunch] = Some gym"
    by (simp add: firstBlocking_def store_free_eval)
  have s: "byDescendingPriority [gym, lunch]"
    by (simp add: byDescendingPriority_def gym_def lunch_def)
  from first_matching_interval_reported[OF v a] f s
  have "r = invalidResult (blockedReason gym) (findNextAvailableTimeAfterBlock ?s tokyo ?t gym)"
    and "priority lunch \<le> priority gym" by auto
  moreover have "blockedReason gym = ''blocked_gym_class''"
    by (simp add: store_free_eval)
  moreover have "findNextAvailableTimeAfterBlock ?s tokyo ?t gym = Some 1698207300000"
    by (simp add: store_free_eval)
  ultimately show ?thesis using v f s by simp
qed

text \<open>
  The claim as stated does not depend on the order of the list. Given the lunch break
  (priority 1) before the gym class (priority 5), both active and both covering
  Wednesday 12:30, validation reports the lunch break.
\<close>

theorem lower_priority_reported_counterexample:
  "fst (validateCallTime (newCallScheduler tokyoUser noOptions) tokyo (Some 1698204600000)
          [lunch, gym] idleHelper (fixedWorld 1698201900000 0))
     = Inr (invalidResult ''blocked_lunch'' (Some 1698207300000))
   \<and> is_active gym \<and> isTimeInBlockedPeriod tokyo (Some 1698204600000) gym
   \<and> is_active lunch \<and> isTimeInBlockedPeriod tokyo (Some 1698204600000) lunch
   \<and> priority lunch < priority gym"
  by (simp add: store_free_eval)

subsection \<open>A profile without active days\<close>

lemma scanActiveDay_no_days:
  assumes "active_days (user s) = []"
  shows "scanActiveDay s z n adjusted = None"
proof (induction n arbitrary: adjusted)
  case 0
  show ?case by simp
next
  case (Suc n)
  have "dayNames ! getDay z t \<noteq> []" for t
  proof -
    have "dayNames ! getDay z t \<in> set dayNames"
      using getDay_lt[of z t] by (intro nth_mem) (simp add: dayNames_def)
    then show ?thesis by (auto simp: dayNames_def)
  qed
  with Suc assms show ?case by (simp add: Let_def split: option.splits)
qed

lemma toDayName_nonempty: "toDayName z time \<noteq> []"
proof (cases time)
  case None
  then show ?thesis by (simp add: toDayName_def)
next
  case (Some t)
  have "dayNames ! getDay z t \<in> set dayNames"
    using getDay_lt[of z t] by (intro nth_mem) (simp add: dayNames_def)
  with Some show ?thesis by (auto simp: toDayName_def dayNames_def)
qed

lemma getNextActiveDay_no_days:
  assumes "active_days (user s) = []"
  shows "getNextActiveDay s z time = map_option (\<lambda>t. t + 86400000) time"
  by (simp add: getNextActiveDay_def scanActiveDay_no_days[OF assms])

text \<open>
  Claim C9 (amended). For a profile whose \<open>active_days\<close> is empty, the forward scan of
  seven days finds no active weekday and \<open>getNextActiveDay\<close> returns the fallback
  instant, the candidate plus 24 hours; validation of a candidate inside the daily
  window reports \<open>inactive_day\<close> with that fallback as the suggested time. The scan is
  bounded, and no error is signalled.
\<close>

theorem no_active_day_fallback:
  assumes "active_days (user s) = []"
  shows "getNextActiveDay s z time = map_option (\<lambda>t. t + 86400000) time
     \<and> (inDailyWindow (user s) z time \<longrightarrow>
          validateCallTime s z time bs h w =
            (Inr (invalidResult ''inactive_day'' (map_option (\<lambda>t. t + 86400000) time)), w))"
proof -
  have n: "getNextActiveDay s z time = map_option (\<lambda>t. t + 86400000) time"
    by (rule getNextActiveDay_no_days[OF assms])
  have "\<not> jsIncludes (active_days (user s)) (toDayName z time)"
    using assms toDayName_nonempty[of z time] by (simp add: jsIncludes_def)
  with n show ?thesis
    by (auto simp: validateCallTime_returns validateChecks_def inDailyWindow_def Let_def)
qed

theorem no_active_day_fallback_witness:
  "active_days (user (newCallScheduler noDaysUser noOptions)) = []
   \<and> inDailyWindow noDaysUser tokyo (Some 1698192000000)
   \<and> getNextActiveDay (newCallScheduler noDaysUser noOptions) tokyo (Some 1698192000000)
       = Some 1698278400000
   \<and> validateCallTime (newCallScheduler noDaysUser noOptions) tokyo (Some 1698192000000) []
       idleHelper (fixedWorld 1698191940000 0)
       = (Inr (invalidResult ''inactive_day'' (Some 1698278400000)), fixedWorld 1698191940000 0)"
proof -
  let ?s = "newCallScheduler noDaysUser noOptions"
  have a: "active_days (user ?s) = []"
    by (simp add: newCallScheduler_def noDaysUser_def)
  have w: "inDailyWindow noDaysUser tokyo (Some 1698192000000)"
    by (simp add: noDaysUser_def store_free_eval)
  from no_active_day_fallback[OF a, of tokyo "Some 1698192000000" "[]" idleHelper
      "fixedWorld 1698191940000 0"] a w
  show ?thesis by (simp add: newCallScheduler_def)
qed

text \<open>
  The claim as stated asks for a configuration error. With no active day, the
  candidate 2023-10-25 09:00 in Tokyo is answered with an ordinary validation result
  whose suggested time is the fallback, one day later.
\<close>

theorem no_active_day_no_error_counterexample:
  "fst (validateCallTime (newCallScheduler noDaysUser noOptions) tokyo (Some 1698192000000) []
          idleHelper (fixedWorld 1698191940000 0))
     = Inr (invalidResult ''inactive_day'' (Some 1698278400000))
   \<and> getNextActiveDay (newCallScheduler noDaysUser noOptions) tokyo (Some 1698192000000)
     = Some (1698192000000 + 24 * 60 * 60 * 1000)"
  by (simp add: getNextActiveDay_no_days noDaysUser_def store_free_eval)

section \<open>Properties of the orchestrator\<close>

subsection \<open>The daily quota\<close>





section \<open>Properties of the stored schedule state\<close>

lemma updateOnce_match:
  assumes "db uid = Some row" and "rowMatches expected row"
  shows "updateOnce uid ups expected db w =
     (Inr (applyUpdates ups (clockAt w (ticks w)) (nextLockVersion expected) row),
      db(uid \<mapsto> applyUpdates ups (clockAt w (ticks w)) (nextLockVersion expected) row),
      w\<lparr>ticks := Suc (ticks w)\<rparr>)"
  using assms by (simp add: updateOnce_def readClock_def Let_def)

lemma updateScheduleHelper_match:
  assumes "db uid = Some row" and "rowMatches expected row"
  shows "updateScheduleHelper uid ups expected db w =
     (Inr (applyUpdates ups (clockAt w (ticks w)) (nextLockVersion expected) row),
      db(uid \<mapsto> applyUpdates ups (clockAt w (ticks w)) (nextLockVersion expected) row),
      w\<lparr>ticks := Suc (ticks w)\<rparr>)"
  using updateOnce_match[of db uid row expected ups w] assms
  by (simp add: updateScheduleHelper_def withRetry_def MAX_RETRIES_def numeral_2_eq_2)

lemma updateOnce_conflict:
  assumes "\<forall>row. db uid = Some row \<longrightarrow> lock_version row \<noteq> v"
  shows "updateOnce uid ups (Some v) db w =
     (Inl (ValidationError conflictMessage), db, w\<lparr>ticks := Suc (ticks w)\<rparr>)"
  using assms
  by (cases "db uid") (simp_all add: updateOnce_def readClock_def Let_def rowMatches_def conflictMessage_def)

lemma updateScheduleHelper_conflict:
  assumes "\<forall>row. db uid = Some row \<longrightarrow> lock_version row \<noteq> v"
  shows "updateScheduleHelper uid ups (Some v) db w =
     (Inl (NetworkError (''Database operation failed after 3 attempts: '' @ conflictMessage)),
      db, w\<lparr>ticks := ticks w + 3, draws := draws w + 2\<rparr>)"
proof -
  have once: "updateOnce uid ups (Some v) db w' =
     (Inl (ValidationError conflictMessage), db, w'\<lparr>ticks := Suc (ticks w')\<rparr>)" for w'
    using assms by (intro updateOnce_conflict)
  show ?thesis
    by (simp add: updateScheduleHelper_def withRetry_def MAX_RETRIES_def numeral_2_eq_2
        once mathRandom_def errorMessage_def)
qed

lemma lock_version_applyUpdates:
  "lock_version (applyUpdates ups now nv row) = (case nv of None \<Rightarrow> lock_version row | Some v \<Rightarrow> v)"
  by (simp add: applyUpdates_def)

lemma generateNextCall_commit:
  assumes "generateNextCallTime s z bs h w = (Inr res, w1)" and "success res"
    and "nextCallTime res = Some (Some due)"
  shows "generateNextCall uid s z bs h db w =
     (case updateScheduleHelper uid
             (noUpdates\<lparr> set_next_call_due := Some (Some due),
                         set_last_generated := Some (clockAt w1 (ticks w1)) \<rparr>)
             (Some (lock_version h)) db (w1\<lparr>ticks := Suc (ticks w1)\<rparr>) of
        (Inl e, db', w3) \<Rightarrow> (Inl e, db', w3)
      | (Inr updated, db', w3) \<Rightarrow> (Inr (res, updated), db', w3))"
  using assms by (simp add: generateNextCall_def toISOString_def readClock_def)

lemma generateNextCall_conflict:
  assumes "generateNextCallTime s z bs h w = (Inr res, w1)" and "success res"
    and "nextCallTime res = Some (Some due)"
    and "\<forall>stored. db uid = Some stored \<longrightarrow> lock_version stored \<noteq> lock_version h"
  shows "generateNextCall uid s z bs h db w =
     (Inl (NetworkError (''Database operation failed after 3 attempts: '' @ conflictMessage)),
      db, w1\<lparr>ticks := ticks w1 + 4, draws := draws w1 + 2\<rparr>)"
proof -
  have "updateScheduleHelper uid
          (noUpdates\<lparr> set_next_call_due := Some (Some due),
                      set_last_generated := Some (clockAt w1 (ticks w1)) \<rparr>)
          (Some (lock_version h)) db (w1\<lparr>ticks := Suc (ticks w1)\<rparr>) =
     (Inl (NetworkError (''Database operation failed after 3 attempts: '' @ conflictMessage)),
      db, (w1\<lparr>ticks := Suc (ticks w1)\<rparr>)\<lparr>ticks := ticks (w1\<lparr>ticks := Suc (ticks w1)\<rparr>) + 3,
             draws := draws (w1\<lparr>ticks := Suc (ticks w1)\<rparr>) + 2\<rparr>)"
    using assms(4) by (intro updateScheduleHelper_conflict)
  then show ?thesis
    by (simp add: generateNextCall_commit[OF assms(1-3)])
qed

lemma createScheduleHelper_version:
  assumes "db uid = None"
  shows "\<exists>row w'. createScheduleHelper isoDate uid db w = (Inr row, db(uid \<mapsto> row), w')
     \<and> lock_version row = 1 \<and> calls_today row = 0"
  using assms
  by (simp add: createScheduleHelper_def withRetry_def MAX_RETRIES_def numeral_2_eq_2
      createOnce_def readClock_def Let_def)

lemma example_daily_limit:
  "generateNextCallTime (newCallScheduler tokyoUser noOptions) tokyo [] fullHelper
     (fixedWorld 1698199200000 0)
   = (Inr (successResult (Some 1698278400000) 1 [''daily_limit_reached'']),
      (fixedWorld 1698199200000 0)\<lparr>ticks := 1, draws := 1\<rparr>)"
  by (simp add: generateNextCallTime_def generateTry_def dailyLimitResult_def
      getNextDayFirstCall_def toISOString_def fullHelper_def successResult_def
      store_free_eval)

text \<open>
  Claim C2 (amended). A write through \<open>updateScheduleHelper\<close> that names an expected
  lock version \<open>v\<close> is conditioned on the stored version being \<open>v\<close>: when it is (and
  \<open>v\<close> is not 0; rows are created with version 1) the write succeeds and the stored
  version becomes \<open>v + 1\<close>; when the stored version differs, or the user has no row, the
  table is left as it was and the call fails, after its three attempts, with a
  NetworkError that carries the message of the concurrent modification. A write that
  names no expected version is applied unconditionally and leaves the version as it
  was. The write of \<open>generateNextCall\<close> names the lock version of the state the hook
  holds: when the stored version differs, the operation ends with that error and the
  table as it was.
\<close>

theorem conditional_write:
  "(db uid = Some row \<and> lock_version row = v \<and> v \<noteq> 0 \<longrightarrow>
      (\<exists>row' w'. updateScheduleHelper uid ups (Some v) db w = (Inr row', db(uid \<mapsto> row'), w')
         \<and> lock_version row' = v + 1))
   \<and> ((\<forall>stored. db2 uid2 = Some stored \<longrightarrow> lock_version stored \<noteq> v2) \<longrightarrow>
      (\<exists>w'. updateScheduleHelper uid2 ups2 (Some v2) db2 w2 =
         (Inl (NetworkError (''Database operation failed after 3 attempts: '' @ conflictMessage)),
          db2, w')))
   \<and> (db3 uid3 = Some row3 \<longrightarrow>
      (\<exists>row' w'. updateScheduleHelper uid3 ups3 None db3 w3 =
                    (Inr row', db3(uid3 \<mapsto> row'), w')
         \<and> lock_version row' = lock_version row3))
   \<and> (generateNextCallTime s z bs h w4 = (Inr res, w5) \<and> success res
      \<and> nextCallTime res = Some (Some due)
      \<and> (\<forall>stored. db4 uid4 = Some stored \<longrightarrow> lock_version stored \<noteq> lock_version h) \<longrightarrow>
      (\<exists>w'. generateNextCall uid4 s z bs h db4 w4 =
         (Inl (NetworkError (''Database operation failed after 3 attempts: '' @ conflictMessage)),
          db4, w')))"
proof (intro conjI impI)
  assume a: "db uid = Some row \<and> lock_version row = v \<and> v \<noteq> 0"
  then have m: "rowMatches (Some v) row" by (simp add: rowMatches_def)
  from a show "\<exists>row' w'. updateScheduleHelper uid ups (Some v) db w =
                  (Inr row', db(uid \<mapsto> row'), w') \<and> lock_version row' = v + 1"
    using updateScheduleHelper_match[of db uid row "Some v" ups w] m
    by (simp add: lock_version_applyUpdates nextLockVersion_def)
next
  assume "\<forall>stored. db2 uid2 = Some stored \<longrightarrow> lock_version stored \<noteq> v2"
  then have "updateScheduleHelper uid2 ups2 (Some v2) db2 w2 =
     (Inl (NetworkError (''Database operation failed after 3 attempts: '' @ conflictMessage)),
      db2, w2\<lparr>ticks := ticks w2 + 3, draws := draws w2 + 2\<rparr>)"
    by (intro updateScheduleHelper_conflict)
  then show "\<exists>w'. updateScheduleHelper uid2 ups2 (Some v2) db2 w2 =
         (Inl (NetworkError (''Database operation failed after 3 attempts: '' @ conflictMessage)),
          db2, w')" by blast
next
  assume a: "db3 uid3 = Some row3"
  have m: "rowMatches None row3" by (simp add: rowMatches_def)
  show "\<exists>row' w'. updateScheduleHelper uid3 ups3 None db3 w3 =
                    (Inr row', db3(uid3 \<mapsto> row'), w')
         \<and> lock_version row' = lock_version row3"
    using updateScheduleHelper_match[of db3 uid3 row3 None ups3 w3] a m
    by (simp add: lock_version_applyUpdates nextLockVersion_def)
next
  assume a: "generateNextCallTime s z bs h w4 = (Inr res, w5) \<and> success res
      \<and> nextCallTime res = Some (Some due)
      \<and> (\<forall>stored. db4 uid4 = Some stored \<longrightarrow> lock_version stored \<noteq> lock_version h)"
  then have "generateNextCall uid4 s z bs h db4 w4 =
     (Inl (NetworkError (''Database operation failed after 3 attempts: '' @ conflictMessage)),
      db4, w5\<lparr>ticks := ticks w5 + 4, draws := draws w5 + 2\<rparr>)"
    by (intro generateNextCall_conflict) auto
  then show "\<exists>w'. generateNextCall uid4 s z bs h db4 w4 =
         (Inl (NetworkError (''Database operation failed after 3 attempts: '' @ conflictMessage)),
          db4, w')" by blast
qed

theorem conditional_write_witness:
  "(\<exists>row' w'. updateScheduleHelper ''user-1'' (noUpdates\<lparr>set_calls_today := Some 2\<rparr>) (Some 7)
        [''user-1'' \<mapsto> versionSeven] (fixedWorld 1698199200000 0)
        = (Inr row', [''user-1'' \<mapsto> versionSeven](''user-1'' \<mapsto> row'), w')
      \<and> lock_version row' = 7 + 1)
   \<and> (\<exists>w'. updateScheduleHelper ''user-1'' (noUpdates\<lparr>set_calls_today := Some 2\<rparr>) (Some 6)
        [''user-1'' \<mapsto> versionSeven] (fixedWorld 1698199200000 0)
        = (Inl (NetworkError (''Database operation failed after 3 attempts: '' @ conflictMessage)),
           [''user-1'' \<mapsto> versionSeven], w'))
   \<and> (\<exists>row' w'. updateScheduleHelper ''user-1'' (noUpdates\<lparr>set_calls_today := Some 2\<rparr>) None
        [''user-1'' \<mapsto> versionSeven] (fixedWorld 1698199200000 0)
        = (Inr row', [''user-1'' \<mapsto> versionSeven](''user-1'' \<mapsto> row'), w')
      \<and> lock_version row' = lock_version versionSeven)
   \<and> (\<exists>w'. generateNextCall ''user-1'' (newCallScheduler tokyoUser noOptions) tokyo []
              fullHelper [''user-1'' \<mapsto> versionSeven] (fixedWorld 1698199200000 0)
        = (Inl (NetworkError (''Database operation failed after 3 attempts: '' @ conflictMessage)),
           [''user-1'' \<mapsto> versionSeven], w'))"
proof -
  let ?db = "[''user-1'' \<mapsto> versionSeven]"
  let ?s = "newCallScheduler tokyoUser noOptions"
  have d: "generateNextCallTime ?s tokyo [] fullHelper (fixedWorld 1698199200000 0)
        = (Inr (successResult (Some 1698278400000) 1 [''daily_limit_reached'']),
           (fixedWorld 1698199200000 0)\<lparr>ticks := 1, draws := 1\<rparr>)
      \<and> success (successResult (Some 1698278400000) 1 [''daily_limit_reached''])
      \<and> nextCallTime (successResult (Some 1698278400000) 1 [''daily_limit_reached''])
          = Some (Some 1698278400000)
      \<and> (\<forall>stored. ?db ''user-1'' = Some stored \<longrightarrow> lock_version stored \<noteq> lock_version fullHelper)"
    by (simp add: example_daily_limit)
       (simp add: successResult_def versionSeven_def fullHelper_def idleHelper_def)
  have a: "?db ''user-1'' = Some versionSeven \<and> lock_version versionSeven = 7 \<and> (7::int) \<noteq> 0"
    by (simp add: versionSeven_def)
  have b: "\<forall>stored. ?db ''user-1'' = Some stored \<longrightarrow> lock_version stored \<noteq> 6"
    by (simp add: versionSeven_def)
  have c: "?db ''user-1'' = Some versionSeven" by simp
  from conditional_write[where db = ?db and uid = "''user-1''" and row = versionSeven and v = 7
      and ?db2.0 = ?db and ?uid2.0 = "''user-1''" and ?v2.0 = 6
      and ?db3.0 = ?db and ?uid3.0 = "''user-1''" and ?row3.0 = versionSeven
      and ups = "noUpdates\<lparr>set_calls_today := Some 2\<rparr>"
      and ?ups2.0 = "noUpdates\<lparr>set_calls_today := Some 2\<rparr>"
      and ?ups3.0 = "noUpdates\<lparr>set_calls_today := Some 2\<rparr>"
      and w = "fixedWorld 1698199200000 0" and ?w2.0 = "fixedWorld 1698199200000 0"
      and ?w3.0 = "fixedWorld 1698199200000 0"
      and s = ?s and z = tokyo and bs = "[]" and h = fullHelper
      and ?w4.0 = "fixedWorld 1698199200000 0"
      and res = "successResult (Some 1698278400000) 1 [''daily_limit_reached'']"
      and ?w5.0 = "(fixedWorld 1698199200000 0)\<lparr>ticks := 1, draws := 1\<rparr>"
      and due = 1698278400000 and ?db4.0 = ?db and ?uid4.0 = "''user-1''"] a b c d
  show ?thesis by blast
qed

text \<open>
  The claim as stated speaks of every write. The write below names no expected
  version: it is applied to the row of version 7 without any comparison and the
  version stays 7.
\<close>

theorem write_without_version_counterexample:
  "updateScheduleHelper ''user-1'' (noUpdates\<lparr>set_calls_today := Some 2\<rparr>) None
      [''user-1'' \<mapsto> versionSeven] (fixedWorld 1698199200000 0)
   = (Inr (versionSeven\<lparr>calls_today := 2, updated_at := 1698199200000\<rparr>),
      [''user-1'' \<mapsto> versionSeven\<lparr>calls_today := 2, updated_at := 1698199200000\<rparr>],
      (fixedWorld 1698199200000 0)\<lparr>ticks := 1\<rparr>)
   \<and> lock_version (versionSeven\<lparr>calls_today := 2, updated_at := 1698199200000\<rparr>) = 7"
  by (simp add: updateScheduleHelper_def withRetry_def MAX_RETRIES_def numeral_2_eq_2
      updateOnce_def readClock_def rowMatches_def applyUpdates_def nextLockVersion_def
      noUpdates_def versionSeven_def idleHelper_def fixedWorld_def Let_def)

subsection \<open>The reset of a stale daily count\<close>













section \<open>Properties of the constraint relaxation\<close>

lemma length_relaxationStrategies [simp]: "length (relaxationStrategies s) = 3"
  by (simp add: relaxationStrategies_def)

lemma relaxationInner_spec:
  "relaxationInner s z bs h st n tot cs w = (ex, w') \<Longrightarrow> n \<le> relaxationBudget s \<Longrightarrow>
   (case ex of
      Found (Inl e) \<Rightarrow> False
    | Found (Inr res) \<Rightarrow>
        success res \<and> tot < attempts res \<and> attempts res \<le> tot + (relaxationBudget s - n)
        \<and> acceptedUnder s z bs h st res
    | Exhausted tot' cs' \<Rightarrow> tot' = tot + (relaxationBudget s - n))"
proof (induction s z bs h st n tot cs w arbitrary: ex w' rule: relaxationInner.induct)
  case (1 s z bs h st n tot cs w)
  show ?case
  proof (cases "n < relaxationBudget s")
    case False
    with "1.prems" show ?thesis
      by (subst (asm) relaxationInner.simps) (auto simp: relaxationBudget_def)
  next
    case True
    obtain r w1 where r: "mathRandom w = (r, w1)" by (cases "mathRandom w")
    obtain now w2 where now: "readClock w1 = (now, w2)" by (cases "readClock w1")
    let ?t = "Some (now + randomMinutes r (tempMinGap s st) (maxGapMinutes s) * 60000)"
    obtain v w3 where v: "validateCallTime (relaxedScheduler s st) z ?t (filteredBlocks st bs) h w2
        = (Inr v, w3)"
      using validateCallTime_returns[of "relaxedScheduler s st" z ?t "filteredBlocks st bs" h w2]
      by blast
    have lt: "n < maxAttempts s div length (relaxationStrategies s)"
      using True by (simp add: relaxationBudget_def)
    show ?thesis
    proof (cases "isValid v")
      case valid: True
      have "relaxationInner s z bs h st n tot cs w =
          (Found (Inr (successResult ?t (tot + 1) (cs @ [description st]))), w3)"
        using lt r now v valid by (subst relaxationInner.simps) simp
      moreover have "acceptedUnder s z bs h st
          (successResult ?t (tot + 1) (cs @ [description st]))"
      proof -
        from v valid
        have "\<exists>t w0 w1 va. Some ?t = Some t
            \<and> validateCallTime (relaxedScheduler s st) z t (filteredBlocks st bs) h w0
                = (Inr va, w1) \<and> isValid va"
          by blast
        then show ?thesis by (simp add: acceptedUnder_def successResult_def)
      qed
      ultimately show ?thesis
        using "1.prems" True by (auto simp: successResult_def)
    next
      case invalid: False
      have step: "relaxationInner s z bs h st n tot cs w =
          relaxationInner s z bs h st (n + 1) (tot + 1) (pushReason v cs) w3"
        using lt r now v invalid by (subst relaxationInner.simps) simp
      have "case ex of
          Found (Inl e) \<Rightarrow> False
        | Found (Inr res) \<Rightarrow>
            success res \<and> tot + 1 < attempts res
            \<and> attempts res \<le> tot + 1 + (relaxationBudget s - (n + 1))
            \<and> acceptedUnder s z bs h st res
        | Exhausted tot' cs' \<Rightarrow> tot' = tot + 1 + (relaxationBudget s - (n + 1))"
        using "1.IH"[OF lt r[symmetric] refl now[symmetric] refl refl v[symmetric] refl invalid]
          "1.prems"(1) True unfolding step by simp
      with True show ?thesis
        by (auto split: relax_exit.splits sum.splits)
    qed
  qed
qed


lemma relaxationOuter_spec:
  "relaxationOuter s z bs h sts tot cs w = (out, w') \<Longrightarrow>
   \<exists>res. out = Inr res \<and>
     (if success res then
        \<exists>i<length sts. acceptedUnder s z bs h (sts ! i) res
           \<and> tot + i * relaxationBudget s < attempts res
           \<and> attempts res \<le> tot + (i + 1) * relaxationBudget s
      else attempts res = tot + length sts * relaxationBudget s)"
proof (induction sts arbitrary: tot cs w)
  case Nil
  then have "out = Inr (failureResult ''All constraint relaxation strategies failed'' tot cs)"
    by simp
  then show ?case by (simp add: failureResult_def)
next
  case (Cons st sts)
  obtain ex w1 where ex: "relaxationInner s z bs h st 0 tot cs w = (ex, w1)"
    by (cases "relaxationInner s z bs h st 0 tot cs w")
  note inner = relaxationInner_spec[OF ex, simplified]
  show ?case
  proof (cases ex)
    case (Found r)
    with inner obtain res where res: "r = Inr res" "success res" "tot < attempts res"
      "attempts res \<le> tot + relaxationBudget s" "acceptedUnder s z bs h st res"
      by (cases r) auto
    from Cons.prems ex Found res have "out = Inr res" by simp
    with res show ?thesis by (auto intro!: exI[of _ 0])
  next
    case (Exhausted tot' cs')
    with inner have tot': "tot' = tot + relaxationBudget s" by simp
    from Cons.prems ex Exhausted
    have "relaxationOuter s z bs h sts tot' cs' w1 = (out, w')" by simp
    from Cons.IH[OF this] obtain res where res: "out = Inr res"
      "if success res then
        \<exists>i<length sts. acceptedUnder s z bs h (sts ! i) res
           \<and> tot' + i * relaxationBudget s < attempts res
           \<and> attempts res \<le> tot' + (i + 1) * relaxationBudget s
      else attempts res = tot' + length sts * relaxationBudget s" by blast
    show ?thesis
    proof (cases "success res")
      case True
      with res obtain i where i: "i < length sts" "acceptedUnder s z bs h (sts ! i) res"
        "tot' + i * relaxationBudget s < attempts res"
        "attempts res \<le> tot' + (i + 1) * relaxationBudget s" by auto
      with tot' res(1) True show ?thesis
        by (auto intro!: exI[of _ "Suc i"])
    next
      case False
      with res tot' show ?thesis by auto
    qed
  qed
qed


lemma relaxationPlan_eq:
  assumes "minGapMinutes s \<noteq> 0"
  shows "relaxationPlan s bs =
     [ (''reduced_min_gap'', minGapMinutes s * (3 / 4), bs),
       (''minimal_gap'', minGapMinutes s * (1 / 2), bs),
       (''ignore_low_priority_blocks'', minGapMinutes s, filter (\<lambda>b. 0 < priority b) bs) ]"
  using assms
  by (simp add: relaxationPlan_def relaxationStrategies_def relaxedScheduler_def tempMinGap_def
      newCallScheduler_def noOptions_def orDefault_def filteredBlocks_def)

lemma relaxationInner_valid_step:
  assumes "n < maxAttempts s div length (relaxationStrategies s)"
    and "mathRandom w = (r, w1)" and "readClock w1 = (now, w2)"
    and "validateCallTime (relaxedScheduler s st) z
           (Some (now + randomMinutes r (tempMinGap s st) (maxGapMinutes s) * 60000))
           (filteredBlocks st bs) h w2 = (Inr v, w3)"
    and "isValid v"
  shows "relaxationInner s z bs h st n tot cs w =
     (Found (Inr (successResult
        (Some (now + randomMinutes r (tempMinGap s st) (maxGapMinutes s) * 60000))
        (tot + 1) (cs @ [description st]))), w3)"
  using assms by (subst relaxationInner.simps) simp

lemma example_relaxed_inner:
  "relaxationInner (newCallScheduler tokyoUser noOptions) tokyo [] recentHelper
     (relaxationStrategies (newCallScheduler tokyoUser noOptions) ! 0) 0 0 []
     (fixedWorld 1698199200000 0)
   = (Found (Inr (successResult (Some 1698201180000) 1 [''reduced_min_gap''])),
      (fixedWorld 1698199200000 0)\<lparr>draws := 1, ticks := 2\<rparr>)"
proof -
  let ?s = "newCallScheduler tokyoUser noOptions"
  let ?st = "relaxationStrategies ?s ! 0"
  let ?w = "fixedWorld 1698199200000 0"
  have st: "?st = \<lparr> relMinGap = Some (135 / 4), ignoreLowPriorityBlocks = False,
         description = ''reduced_min_gap'' \<rparr>"
    by (simp add: relaxationStrategies_def scheduler_defs)
  have rs: "relaxedScheduler ?s ?st = \<lparr> user = tokyoUser, minGapMinutes = 135 / 4,
         maxGapMinutes = 360, maxAttempts = 50 \<rparr>"
    unfolding st by (simp add: relaxedScheduler_def tempMinGap_def scheduler_defs)
  have n: "0 < maxAttempts ?s div length (relaxationStrategies ?s)"
    by (simp add: relaxationStrategies_def scheduler_defs)
  have m: "mathRandom ?w = (0, ?w\<lparr>draws := 1\<rparr>)"
    by (simp add: mathRandom_def fixedWorld_def)
  have c: "readClock (?w\<lparr>draws := 1\<rparr>) = (1698199200000, ?w\<lparr>draws := 1, ticks := 1\<rparr>)"
    by (simp add: readClock_def fixedWorld_def)
  have p: "Some (1698199200000 + randomMinutes 0 (tempMinGap ?s ?st) (maxGapMinutes ?s) * 60000)
      = Some 1698201180000"
    unfolding st by (simp add: randomMinutes_def tempMinGap_def scheduler_defs floor_eq_iff)
  have f: "filteredBlocks ?st [] = []" by (simp add: filteredBlocks_def)
  have v: "validateCallTime (relaxedScheduler ?s ?st) tokyo (Some 1698201180000) [] recentHelper
        (?w\<lparr>draws := 1, ticks := 1\<rparr>)
      = (Inr validResult, ?w\<lparr>draws := 1, ticks := 2\<rparr>)"
    unfolding rs
    by (simp add: validate_defs time_defs tokyoUser_def tokyo_def recentHelper_def
        idleHelper_def fixedWorld_def)
  have d: "description ?st = ''reduced_min_gap''" unfolding st by simp
  have "relaxationInner ?s tokyo [] recentHelper ?st 0 0 [] ?w =
     (Found (Inr (successResult
        (Some (1698199200000 + randomMinutes 0 (tempMinGap ?s ?st) (maxGapMinutes ?s) * 60000))
        (0 + 1) ([] @ [description ?st]))), ?w\<lparr>draws := 1, ticks := 2\<rparr>)"
  proof (rule relaxationInner_valid_step[OF n m c])
    show "validateCallTime (relaxedScheduler ?s ?st) tokyo
           (Some (1698199200000 + randomMinutes 0 (tempMinGap ?s ?st) (maxGapMinutes ?s) * 60000))
           (filteredBlocks ?st []) recentHelper (?w\<lparr>draws := 1, ticks := 1\<rparr>)
        = (Inr validResult, ?w\<lparr>draws := 1, ticks := 2\<rparr>)"
      unfolding p f by (rule v)
    show "isValid validResult" by (simp add: validResult_def)
  qed
  then show ?thesis unfolding p d by simp
qed

lemma example_relaxed:
  "findTimeWithConstraintRelaxation (newCallScheduler tokyoUser noOptions) tokyo [] recentHelper
     (fixedWorld 1698199200000 0)
   = (Inr (successResult (Some 1698201180000) 1 [''reduced_min_gap'']),
      (fixedWorld 1698199200000 0)\<lparr>draws := 1, ticks := 2\<rparr>)"
proof -
  let ?s = "newCallScheduler tokyoUser noOptions"
  have l: "relaxationStrategies ?s = (relaxationStrategies ?s ! 0) # tl (relaxationStrategies ?s)"
    by (simp add: relaxationStrategies_def)
  have "relaxationOuter ?s tokyo [] recentHelper
          ((relaxationStrategies ?s ! 0) # tl (relaxationStrategies ?s)) 0 []
          (fixedWorld 1698199200000 0)
      = (Inr (successResult (Some 1698201180000) 1 [''reduced_min_gap'']),
         (fixedWorld 1698199200000 0)\<lparr>draws := 1, ticks := 2\<rparr>)"
    by (simp only: relaxationOuter.simps example_relaxed_inner prod.case relax_exit.case)
  then show ?thesis
    unfolding findTimeWithConstraintRelaxation_def using l by simp
qed

lemma example_too_close:
  "tooCloseToLastCall (newCallScheduler tokyoUser noOptions) (Some 1698201180000) recentHelper"
  by (simp add: tooCloseToLastCall_def recentHelper_def idleHelper_def scheduler_defs)


text \<open>
  Claim C8 (amended). The constraint-relaxation strategy runs three relaxations in
  the order: minimum gap at 75% of the nominal one, then at 50%, then the nominal gap
  with the blocked intervals of priority 0 dropped; there is no pass at 100% with all
  the intervals. Each relaxation makes at most \<open>maxAttempts\<close> divided by three (rounded
  down) attempts, so a success under the relaxation of index \<open>i\<close> comes after more than
  \<open>i\<close> and at most \<open>i + 1\<close> such budgets, and a failure after exactly three. A success
  records the relaxation applied as the last of its constraints.
\<close>

theorem relaxation_order_and_budget:
  assumes "findTimeWithConstraintRelaxation s z bs h w = (out, w')"
  shows "(\<exists>res. out = Inr res \<and>
           (if success res then
              \<exists>i<3. acceptedUnder s z bs h (relaxationStrategies s ! i) res
                 \<and> i * relaxationBudget s < attempts res
                 \<and> attempts res \<le> (i + 1) * relaxationBudget s
            else attempts res = 3 * relaxationBudget s))
     \<and> (minGapMinutes s \<noteq> 0 \<longrightarrow>
          relaxationPlan s bs =
            [ (''reduced_min_gap'', minGapMinutes s * (3 / 4), bs),
              (''minimal_gap'', minGapMinutes s * (1 / 2), bs),
              (''ignore_low_priority_blocks'', minGapMinutes s,
                 filter (\<lambda>b. 0 < priority b) bs) ])"
proof -
  from relaxationOuter_spec[OF assms[unfolded findTimeWithConstraintRelaxation_def]]
  obtain res where res: "out = Inr res"
    "if success res then
        \<exists>i<length (relaxationStrategies s).
           acceptedUnder s z bs h (relaxationStrategies s ! i) res
           \<and> 0 + i * relaxationBudget s < attempts res
           \<and> attempts res \<le> 0 + (i + 1) * relaxationBudget s
      else attempts res = 0 + length (relaxationStrategies s) * relaxationBudget s"
    by blast
  from res(2) have "if success res then
              \<exists>i<3. acceptedUnder s z bs h (relaxationStrategies s ! i) res
                 \<and> i * relaxationBudget s < attempts res
                 \<and> attempts res \<le> (i + 1) * relaxationBudget s
            else attempts res = 3 * relaxationBudget s"
    by (simp only: length_relaxationStrategies add_0)
  with res(1) relaxationPlan_eq[of s bs] show ?thesis by blast
qed

theorem relaxation_order_and_budget_witness:
  "findTimeWithConstraintRelaxation (newCallScheduler tokyoUser noOptions) tokyo [] recentHelper
     (fixedWorld 1698199200000 0)
   = (Inr (successResult (Some 1698201180000) 1 [''reduced_min_gap'']),
      (fixedWorld 1698199200000 0)\<lparr>draws := 1, ticks := 2\<rparr>)
   \<and> (\<exists>i<3. acceptedUnder (newCallScheduler tokyoUser noOptions) tokyo [] recentHelper
                (relaxationStrategies (newCallScheduler tokyoUser noOptions) ! i)
                (successResult (Some 1698201180000) 1 [''reduced_min_gap''])
          \<and> i * relaxationBudget (newCallScheduler tokyoUser noOptions) < 1
          \<and> 1 \<le> (i + 1) * relaxationBudget (newCallScheduler tokyoUser noOptions))
   \<and> relaxationPlan (newCallScheduler tokyoUser noOptions) [] =
        [ (''reduced_min_gap'', 135 / 4, []), (''minimal_gap'', 45 / 2, []),
          (''ignore_low_priority_blocks'', 45, []) ]"
proof -
  let ?s = "newCallScheduler tokyoUser noOptions"
  have g: "minGapMinutes ?s \<noteq> 0" "minGapMinutes ?s = 45" by (simp_all add: scheduler_defs)
  from relaxation_order_and_budget[OF example_relaxed] g example_relaxed
  show ?thesis by (simp add: successResult_def)
qed

text \<open>
  The claim as stated begins with a pass at 100% of the nominal gap. With the nominal
  gap of 45 minutes and the last call one minute before the clock reading, the first
  attempt of the strategy proposes the instant 33 minutes ahead and accepts it under
  \<open>reduced_min_gap\<close>, although it is closer to the last call than the nominal gap.
\<close>

theorem relaxation_starts_reduced_counterexample:
  "fst (findTimeWithConstraintRelaxation (newCallScheduler tokyoUser noOptions) tokyo []
          recentHelper (fixedWorld 1698199200000 0))
     = Inr (successResult (Some 1698201180000) 1 [''reduced_min_gap''])
   \<and> tooCloseToLastCall (newCallScheduler tokyoUser noOptions) (Some 1698201180000) recentHelper"
  by (simp add: example_relaxed example_too_close)

end
